theory Spec2Isabelle
  imports Complex_Main "HOL-Library.AList"
begin

section \<open>Alert service: data model\<close>

text \<open>
  The development embeds \<^verbatim>\<open>app/services/alert_service.py\<close> and the pydantic
  models of \<^verbatim>\<open>app/models/alert.py\<close>.

  Python values that the service keeps in memory and writes to its JSON file are
  values of \<open>pyval\<close>: exactly the values \<^verbatim>\<open>json.loads\<close> can return.  A dict is an
  association list in insertion order (lookup \<open>map_of\<close>, item assignment
  \<open>AList.update\<close>, which overwrites in place or appends, as a Python dict does).
  A member of a \<^verbatim>\<open>str\<close>-based enum is represented by its string value: it compares
  equal to it and \<^verbatim>\<open>json.dump\<close> writes it as that string.  A finite Python float
  is read as the real number it denotes, and arithmetic on floats rounds as the
  section on floating-point arithmetic says; NaN and the infinities are outside the
  model.
\<close>

datatype pyval =
    PNone
  | PBool bool
  | PInt int
  | PFloat real
  | PStr string
  | PList "pyval list"
  | PDict "(string \<times> pyval) list"

text \<open>Exceptions that leave the service's methods.\<close>

datatype exn =
    AlertLimitExceededError (current_count: int) (max_allowed: int)
  | AlertNotFoundError string
  | OSError
  | UnicodeDecodeError
  | ValueError
  | RecursionError
  | KeyError string
  | TypeError
  | AttributeError
  | ValidationError

datatype AlertType = PRICE_THRESHOLD | SIGNAL_CHANGE | PORTFOLIO_VALUE

datatype PriceDirection = ABOVE | BELOW

datatype SignalTarget = BUY | SELL | HOLD

fun AlertType_value :: "AlertType \<Rightarrow> string" where
  "AlertType_value PRICE_THRESHOLD = ''price_threshold''"
| "AlertType_value SIGNAL_CHANGE = ''signal_change''"
| "AlertType_value PORTFOLIO_VALUE = ''portfolio_value''"

fun PriceDirection_value :: "PriceDirection \<Rightarrow> string" where
  "PriceDirection_value ABOVE = ''above''"
| "PriceDirection_value BELOW = ''below''"

fun SignalTarget_value :: "SignalTarget \<Rightarrow> string" where
  "SignalTarget_value BUY = ''BUY''"
| "SignalTarget_value SELL = ''SELL''"
| "SignalTarget_value HOLD = ''HOLD''"

text \<open>
  \<^verbatim>\<open>AlertSummaryInfo\<close> and \<^verbatim>\<open>Alert\<close> declare the same eight fields; \<^verbatim>\<open>Alert\<close> has
  \<^verbatim>\<open>user_id\<close> and \<^verbatim>\<open>created_at\<close> besides.  The record of \<^verbatim>\<open>Alert\<close> extends the
  record of the summary, so that one selector reads a field of either.  The field
  \<^verbatim>\<open>id\<close> is \<open>id'\<close> here.  A \<^verbatim>\<open>datetime\<close> is kept as its ISO-8601 text.
\<close>

record AlertSummaryInfo =
  id' :: string
  alert_type :: AlertType
  ticker :: "string option"
  target_price :: "real option"
  price_direction :: "PriceDirection option"
  target_signal :: "SignalTarget option"
  percentage_threshold :: "real option"
  baseline_value :: "real option"

record Alert = AlertSummaryInfo +
  user_id :: string
  created_at :: string

record TriggeredAlertResult =
  alert :: AlertSummaryInfo
  triggered :: bool
  current_value :: "string option"
  details :: "string option"
  error :: "string option"
  evaluated_at :: string

record TriggeredAlertsSummary =
  total_alerts :: int
  triggered_count :: int
  not_triggered_count :: int
  error_count :: int

section \<open>Floating-point arithmetic\<close>

text \<open>
  A Python float is an IEEE 754 binary64 number.  Each of \<^verbatim>\<open>+\<close>, \<^verbatim>\<open>-\<close>, \<^verbatim>\<open>*\<close> and
  \<^verbatim>\<open>/\<close> returns the exact result rounded to the nearest number with a significand
  of 53 bits, a tie going to the even significand; comparisons and \<^verbatim>\<open>abs\<close> are
  exact.  The exponent is not bounded here: a result beyond the largest double
  (an infinity in Python) and the gradual underflow of results smaller than the
  smallest normal double are outside the model, as NaN and the infinities are.
\<close>

definition round_half_even :: "real \<Rightarrow> int" where
  "round_half_even x =
     (let f = \<lfloor>x\<rfloor>; d = x - of_int f
      in if d < 1 / 2 then f
         else if 1 / 2 < d then f + 1
         else if even f then f else f + 1)"

text \<open>
  The binary exponent \<open>e\<close> of a positive number \<open>x\<close>, for which
  \<open>2 powi e \<le> x < 2 powi (e + 1)\<close>: searched upwards from 0 when \<open>x\<close> is at least 1,
  downwards otherwise.
\<close>

function expo_up :: "real \<Rightarrow> nat \<Rightarrow> nat" where
  "expo_up x n = (if x < 2 ^ (n + 1) then n else expo_up x (n + 1))"
  by pat_completeness auto
termination
proof (relation "measure (\<lambda>(x, n). nat \<lceil>x\<rceil> + 1 - 2 ^ (n + 1))")
  show "wf (measure (\<lambda>(x, n). nat \<lceil>x\<rceil> + 1 - 2 ^ (n + 1)))" by simp
next
  have aux: "(2::nat) ^ k \<le> nat \<lceil>y\<rceil>" if "(2::real) ^ k \<le> y" for k and y :: real
  proof -
    have "y \<le> real_of_int \<lceil>y\<rceil>" by (rule le_of_int_ceiling)
    with that have "(2::real) ^ k \<le> real_of_int \<lceil>y\<rceil>" by (rule order_trans)
    then have "real_of_int (2 ^ k) \<le> real_of_int \<lceil>y\<rceil>" by simp
    then have "(2::int) ^ k \<le> \<lceil>y\<rceil>" by (simp only: of_int_le_iff)
    then have "nat ((2::int) ^ k) \<le> nat \<lceil>y\<rceil>" by (rule nat_mono)
    then show ?thesis by (simp add: nat_power_eq)
  qed
  fix x :: real and n :: nat
  assume "\<not> x < 2 ^ (n + 1)"
  then have "(2::real) ^ (n + 1) \<le> x" by simp
  then have "(2::nat) ^ (n + 1) \<le> nat \<lceil>x\<rceil>" by (rule aux)
  then have "(2::nat) ^ (n + 1) < nat \<lceil>x\<rceil> + 1"
    by (rule le_imp_less_Suc [unfolded Suc_eq_plus1])
  moreover have "(2::nat) ^ (n + 1) < 2 ^ (n + 1 + 1)" by simp
  ultimately have "nat \<lceil>x\<rceil> + 1 - 2 ^ (n + 1 + 1) < nat \<lceil>x\<rceil> + 1 - 2 ^ (n + 1)"
    by (rule diff_less_mono2 [rotated])
  then show "((x, n + 1), (x, n)) \<in> measure (\<lambda>(x, n). nat \<lceil>x\<rceil> + 1 - 2 ^ (n + 1))"
    by simp
qed

function expo_down :: "real \<Rightarrow> nat \<Rightarrow> nat" where
  "expo_down x n = (if x \<le> 0 \<or> 1 \<le> x * 2 ^ n then n else expo_down x (n + 1))"
  by pat_completeness auto
termination
proof (relation "measure (\<lambda>(x, n). nat \<lceil>1 / x\<rceil> + 1 - 2 ^ n)")
  show "wf (measure (\<lambda>(x, n). nat \<lceil>1 / x\<rceil> + 1 - 2 ^ n))" by simp
next
  have aux: "(2::nat) ^ k \<le> nat \<lceil>y\<rceil>" if "(2::real) ^ k \<le> y" for k and y :: real
  proof -
    have "y \<le> real_of_int \<lceil>y\<rceil>" by (rule le_of_int_ceiling)
    with that have "(2::real) ^ k \<le> real_of_int \<lceil>y\<rceil>" by (rule order_trans)
    then have "real_of_int (2 ^ k) \<le> real_of_int \<lceil>y\<rceil>" by simp
    then have "(2::int) ^ k \<le> \<lceil>y\<rceil>" by (simp only: of_int_le_iff)
    then have "nat ((2::int) ^ k) \<le> nat \<lceil>y\<rceil>" by (rule nat_mono)
    then show ?thesis by (simp add: nat_power_eq)
  qed
  fix x :: real and n :: nat
  assume "\<not> (x \<le> 0 \<or> 1 \<le> x * 2 ^ n)"
  then have x: "0 < x" and lt: "x * 2 ^ n < 1" by simp_all
  from x lt have "(2::real) ^ n < 1 / x"
    by (simp add: pos_less_divide_eq mult.commute)
  then have "(2::real) ^ n \<le> 1 / x" by (rule less_imp_le)
  then have "(2::nat) ^ n \<le> nat \<lceil>1 / x\<rceil>" by (rule aux)
  then have "(2::nat) ^ n < nat \<lceil>1 / x\<rceil> + 1"
    by (rule le_imp_less_Suc [unfolded Suc_eq_plus1])
  moreover have "(2::nat) ^ n < 2 ^ (n + 1)" by simp
  ultimately have "nat \<lceil>1 / x\<rceil> + 1 - 2 ^ (n + 1) < nat \<lceil>1 / x\<rceil> + 1 - 2 ^ n"
    by (rule diff_less_mono2 [rotated])
  then show "((x, n + 1), (x, n)) \<in> measure (\<lambda>(x, n). nat \<lceil>1 / x\<rceil> + 1 - 2 ^ n)"
    by simp
qed

declare expo_up.simps [simp del] expo_down.simps [simp del]

definition expo2 :: "real \<Rightarrow> int" where
  "expo2 x = (if 1 \<le> x then int (expo_up x 0) else - int (expo_down x 1))"

text \<open>
  Rounding to the nearest double: the number is divided by the unit in its last
  place, \<open>2 powi (e - 52)\<close>, rounded to an integer with ties to even, and multiplied
  back.
\<close>

definition fl :: "real \<Rightarrow> real" where
  "fl x =
     (if x = 0 then 0
      else of_int (round_half_even (x / 2 powi (expo2 \<bar>x\<bar> - 52)))
             * 2 powi (expo2 \<bar>x\<bar> - 52))"

text \<open>
  The four operations.  Their operands are doubles; a real that is not one is taken
  to the nearest double first, as \<^verbatim>\<open>float()\<close> does.
\<close>

definition fadd :: "real \<Rightarrow> real \<Rightarrow> real" where
  "fadd x y = fl (fl x + fl y)"

definition fsub :: "real \<Rightarrow> real \<Rightarrow> real" where
  "fsub x y = fl (fl x - fl y)"

definition fmul :: "real \<Rightarrow> real \<Rightarrow> real" where
  "fmul x y = fl (fl x * fl y)"

definition fdiv :: "real \<Rightarrow> real \<Rightarrow> real" where
  "fdiv x y = fl (fl x / fl y)"

section \<open>Formatting floats\<close>

text \<open>
  \<^verbatim>\<open>f"{x:.2f}"\<close> and \<^verbatim>\<open>f"{x:.1f}"\<close>: the decimal expansion with a fixed number of
  fractional digits, rounded to nearest with ties to even.
\<close>

definition digit_char :: "nat \<Rightarrow> char" where
  "digit_char d = ''0123456789'' ! (d mod 10)"

fun digits :: "nat \<Rightarrow> string" where
  "digits n = (if n < 10 then [digit_char n] else digits (n div 10) @ [digit_char n])"

definition zero_pad :: "nat \<Rightarrow> string \<Rightarrow> string" where
  "zero_pad k s = replicate (k - length s) CHR ''0'' @ s"

definition format_fixed :: "nat \<Rightarrow> real \<Rightarrow> string" where
  "format_fixed k x =
     (let n = nat (round_half_even (\<bar>x\<bar> * 10 ^ k))
      in (if x < 0 then ''-'' else '''')
         @ digits (n div 10 ^ k) @ ''.'' @ zero_pad k (digits (n mod 10 ^ k)))"

text \<open>\<^verbatim>\<open>f"{alert.ticker}"\<close> for an optional string: \<^verbatim>\<open>None\<close> prints as \<^verbatim>\<open>None\<close>.\<close>

definition fmt_opt_str :: "string option \<Rightarrow> string" where
  "fmt_opt_str t = (case t of None \<Rightarrow> ''None'' | Some s \<Rightarrow> s)"

section \<open>Python operations on stored values\<close>

text \<open>
  The service indexes, measures and iterates whatever the data file held, so the
  operations it applies are total here, with the exception Python raises as the
  left summand.
\<close>

definition bind_sum :: "'e + 'a \<Rightarrow> ('a \<Rightarrow> 'e + 'b) \<Rightarrow> 'e + 'b" where
  "bind_sum m f = (case m of Inl e \<Rightarrow> Inl e | Inr v \<Rightarrow> f v)"

text \<open>A list comprehension whose element expression may raise.\<close>

fun map_exn :: "('a \<Rightarrow> 'e + 'b) \<Rightarrow> 'a list \<Rightarrow> 'e + 'b list" where
  "map_exn f [] = Inr []"
| "map_exn f (x # xs) =
     (case f x of
        Inl e \<Rightarrow> Inl e
      | Inr y \<Rightarrow> (case map_exn f xs of Inl e \<Rightarrow> Inl e | Inr ys \<Rightarrow> Inr (y # ys)))"

text \<open>A list comprehension whose filter condition may raise.\<close>

fun filter_exn :: "('a \<Rightarrow> 'e + bool) \<Rightarrow> 'a list \<Rightarrow> 'e + 'a list" where
  "filter_exn p [] = Inr []"
| "filter_exn p (x # xs) =
     (case p x of
        Inl e \<Rightarrow> Inl e
      | Inr b \<Rightarrow>
          (case filter_exn p xs of
             Inl e \<Rightarrow> Inl e
           | Inr ys \<Rightarrow> Inr (if b then x # ys else ys)))"

text \<open>\<^verbatim>\<open>len(v)\<close>.\<close>

fun py_len :: "pyval \<Rightarrow> exn + int" where
  "py_len (PList xs) = Inr (int (length xs))"
| "py_len (PStr s) = Inr (int (length s))"
| "py_len (PDict d) = Inr (int (length d))"
| "py_len PNone = Inl TypeError"
| "py_len (PBool b) = Inl TypeError"
| "py_len (PInt i) = Inl TypeError"
| "py_len (PFloat r) = Inl TypeError"

text \<open>\<^verbatim>\<open>for a in v\<close>: a list yields its elements, a string its characters, a dict its keys.\<close>

fun py_iter :: "pyval \<Rightarrow> exn + pyval list" where
  "py_iter (PList xs) = Inr xs"
| "py_iter (PStr s) = Inr (map (\<lambda>c. PStr [c]) s)"
| "py_iter (PDict d) = Inr (map (\<lambda>kv. PStr (fst kv)) d)"
| "py_iter PNone = Inl TypeError"
| "py_iter (PBool b) = Inl TypeError"
| "py_iter (PInt i) = Inl TypeError"
| "py_iter (PFloat r) = Inl TypeError"

text \<open>\<^verbatim>\<open>v[k]\<close> for a string key \<open>k\<close>.\<close>

fun py_getitem :: "pyval \<Rightarrow> string \<Rightarrow> exn + pyval" where
  "py_getitem (PDict d) k = (case map_of d k of None \<Rightarrow> Inl (KeyError k) | Some v \<Rightarrow> Inr v)"
| "py_getitem (PList xs) k = Inl TypeError"
| "py_getitem (PStr s) k = Inl TypeError"
| "py_getitem PNone k = Inl TypeError"
| "py_getitem (PBool b) k = Inl TypeError"
| "py_getitem (PInt i) k = Inl TypeError"
| "py_getitem (PFloat r) k = Inl TypeError"

text \<open>\<^verbatim>\<open>d.get(k)\<close> on a dict.\<close>

definition dict_get :: "(string \<times> pyval) list \<Rightarrow> string \<Rightarrow> pyval" where
  "dict_get d k = (case map_of d k of None \<Rightarrow> PNone | Some v \<Rightarrow> v)"

section \<open>Validation of a stored alert\<close>

text \<open>
  \<^verbatim>\<open>Alert(**data)\<close>: each declared field is read from the dict and checked against
  its declared type; a required field that is missing, or a value the field does not
  take, is a \<^verbatim>\<open>ValidationError\<close>; keys the model does not declare are ignored.

  Pydantic is not part of the repository.  What is the same in all its versions is
  written out: a str field takes a string, a float field a JSON number (an integer
  is converted, which rounds it to a double), an enum field the string value of a
  member, an optional field \<^verbatim>\<open>None\<close>.  What its versions and modes decide
  differently, or its parsers decide, is a parameter of the model: whether a value
  that is not a string is coerced for a str field, whether a value that is not a
  number (a numeric string, a boolean) is coerced for a float field, and which
  values parse as a datetime.  A datetime is kept as its ISO-8601 text.
\<close>

record pydantic =
  coerce_str :: "pyval \<Rightarrow> string option"
  coerce_float :: "pyval \<Rightarrow> real option"
  parse_datetime :: "pyval \<Rightarrow> string option"

fun AlertType_of :: "string \<Rightarrow> AlertType option" where
  "AlertType_of s =
     (if s = ''price_threshold'' then Some PRICE_THRESHOLD
      else if s = ''signal_change'' then Some SIGNAL_CHANGE
      else if s = ''portfolio_value'' then Some PORTFOLIO_VALUE
      else None)"

fun PriceDirection_of :: "string \<Rightarrow> PriceDirection option" where
  "PriceDirection_of s =
     (if s = ''above'' then Some ABOVE else if s = ''below'' then Some BELOW else None)"

fun SignalTarget_of :: "string \<Rightarrow> SignalTarget option" where
  "SignalTarget_of s =
     (if s = ''BUY'' then Some BUY
      else if s = ''SELL'' then Some SELL
      else if s = ''HOLD'' then Some HOLD
      else None)"

definition req_str :: "pydantic \<Rightarrow> (string \<times> pyval) list \<Rightarrow> string \<Rightarrow> exn + string" where
  "req_str lib d k =
     (case map_of d k of
        None \<Rightarrow> Inl ValidationError
      | Some PNone \<Rightarrow> Inl ValidationError
      | Some (PStr s) \<Rightarrow> Inr s
      | Some v \<Rightarrow> (case coerce_str lib v of None \<Rightarrow> Inl ValidationError | Some s \<Rightarrow> Inr s))"

definition req_enum :: "(string \<Rightarrow> 'a option) \<Rightarrow> (string \<times> pyval) list \<Rightarrow> string \<Rightarrow> exn + 'a" where
  "req_enum parse d k =
     (case map_of d k of
        Some (PStr s) \<Rightarrow> (case parse s of None \<Rightarrow> Inl ValidationError | Some v \<Rightarrow> Inr v)
      | _ \<Rightarrow> Inl ValidationError)"

definition req_datetime :: "pydantic \<Rightarrow> (string \<times> pyval) list \<Rightarrow> string \<Rightarrow> exn + string" where
  "req_datetime lib d k =
     (case map_of d k of
        None \<Rightarrow> Inl ValidationError
      | Some PNone \<Rightarrow> Inl ValidationError
      | Some v \<Rightarrow>
          (case parse_datetime lib v of None \<Rightarrow> Inl ValidationError | Some t \<Rightarrow> Inr t))"

definition opt_str :: "pydantic \<Rightarrow> (string \<times> pyval) list \<Rightarrow> string \<Rightarrow> exn + string option" where
  "opt_str lib d k =
     (case map_of d k of
        None \<Rightarrow> Inr None
      | Some PNone \<Rightarrow> Inr None
      | Some (PStr s) \<Rightarrow> Inr (Some s)
      | Some v \<Rightarrow>
          (case coerce_str lib v of None \<Rightarrow> Inl ValidationError | Some s \<Rightarrow> Inr (Some s)))"

definition opt_float :: "pydantic \<Rightarrow> (string \<times> pyval) list \<Rightarrow> string \<Rightarrow> exn + real option" where
  "opt_float lib d k =
     (case map_of d k of
        None \<Rightarrow> Inr None
      | Some PNone \<Rightarrow> Inr None
      | Some (PFloat r) \<Rightarrow> Inr (Some r)
      | Some (PInt i) \<Rightarrow> Inr (Some (fl (of_int i)))
      | Some v \<Rightarrow>
          (case coerce_float lib v of None \<Rightarrow> Inl ValidationError | Some r \<Rightarrow> Inr (Some r)))"

definition opt_enum :: "(string \<Rightarrow> 'a option) \<Rightarrow> (string \<times> pyval) list \<Rightarrow> string \<Rightarrow> exn + 'a option" where
  "opt_enum parse d k =
     (case map_of d k of
        None \<Rightarrow> Inr None
      | Some PNone \<Rightarrow> Inr None
      | Some (PStr s) \<Rightarrow> (case parse s of None \<Rightarrow> Inl ValidationError | Some v \<Rightarrow> Inr (Some v))
      | _ \<Rightarrow> Inl ValidationError)"

definition to_alert :: "pydantic \<Rightarrow> pyval \<Rightarrow> exn + Alert" where
  "to_alert lib data =
     (case data of
        PDict d \<Rightarrow>
          bind_sum (req_str lib d ''id'') (\<lambda>i.
          bind_sum (req_str lib d ''user_id'') (\<lambda>u.
          bind_sum (req_enum AlertType_of d ''alert_type'') (\<lambda>ty.
          bind_sum (opt_str lib d ''ticker'') (\<lambda>tk.
          bind_sum (opt_float lib d ''target_price'') (\<lambda>tp.
          bind_sum (opt_enum PriceDirection_of d ''price_direction'') (\<lambda>pd.
          bind_sum (opt_enum SignalTarget_of d ''target_signal'') (\<lambda>ts.
          bind_sum (opt_float lib d ''percentage_threshold'') (\<lambda>pt.
          bind_sum (opt_float lib d ''baseline_value'') (\<lambda>bv.
          bind_sum (req_datetime lib d ''created_at'') (\<lambda>ca.
            Inr \<lparr>id' = i, alert_type = ty, ticker = tk, target_price = tp,
                 price_direction = pd, target_signal = ts, percentage_threshold = pt,
                 baseline_value = bv, user_id = u, created_at = ca\<rparr>))))))))))
      | _ \<Rightarrow> Inl TypeError)"

section \<open>The store\<close>

text \<open>
  The durable file is described by what reading it gives: it is absent
  (\<open>Missing\<close>); the existence test itself raises, as \<^verbatim>\<open>Path.exists\<close> does up to
  Python 3.13 when a directory on the path may not be searched (\<open>Inaccessible\<close>);
  \<^verbatim>\<open>read_text\<close> raises \<^verbatim>\<open>OSError\<close> (\<open>Unreadable\<close>); its bytes are
  not UTF-8 and \<^verbatim>\<open>read_text\<close> raises \<^verbatim>\<open>UnicodeDecodeError\<close> (\<open>Undecodable\<close>);
  \<^verbatim>\<open>json.loads\<close> raises \<^verbatim>\<open>JSONDecodeError\<close> (\<open>Malformed\<close>), raises
  \<^verbatim>\<open>ValueError\<close> on an integer literal beyond the digit limit of the interpreter
  (\<open>HugeInteger\<close>), or raises \<^verbatim>\<open>RecursionError\<close> on nesting beyond its recursion
  limit (\<open>TooDeep\<close>); or \<^verbatim>\<open>json.loads\<close> returns a value (\<open>Document\<close>).
  \<^verbatim>\<open>json.dump\<close> followed by \<^verbatim>\<open>json.loads\<close> is the identity on \<open>pyval\<close>, so a
  saved file is the document of the value saved.
\<close>

datatype durable =
    Missing
  | Inaccessible
  | Unreadable
  | Undecodable
  | Malformed
  | HugeInteger
  | TooDeep
  | Document pyval

record AlertService =
  data_file :: durable
  max_per_user :: int
  alerts :: "(string \<times> pyval) list"

text \<open>
  \<^verbatim>\<open>_load_alerts\<close>.  The existence test stands before the \<^verbatim>\<open>try\<close>, so what it
  raises leaves the constructor.  Inside the \<^verbatim>\<open>try\<close>, an \<^verbatim>\<open>OSError\<close> and a
  \<^verbatim>\<open>JSONDecodeError\<close> are caught; the \<^verbatim>\<open>UnicodeDecodeError\<close> of \<^verbatim>\<open>read_text\<close> and the \<^verbatim>\<open>ValueError\<close> and
  \<^verbatim>\<open>RecursionError\<close> of \<^verbatim>\<open>json.loads\<close> are neither and leave the constructor.
  After a dict has been assigned, the method totals \<^verbatim>\<open>len(v)\<close> over its values for
  the log line, inside the same \<^verbatim>\<open>try\<close>; the \<^verbatim>\<open>TypeError\<close> of a value that has
  no length leaves the constructor too.
\<close>

definition load_alerts :: "AlertService \<Rightarrow> exn + AlertService" where
  "load_alerts s =
     (case data_file s of
        Missing \<Rightarrow> Inr s
      | Inaccessible \<Rightarrow> Inl OSError
      | Unreadable \<Rightarrow> Inr (s\<lparr>alerts := []\<rparr>)
      | Undecodable \<Rightarrow> Inl UnicodeDecodeError
      | Malformed \<Rightarrow> Inr (s\<lparr>alerts := []\<rparr>)
      | HugeInteger \<Rightarrow> Inl ValueError
      | TooDeep \<Rightarrow> Inl RecursionError
      | Document data \<Rightarrow>
          (case data of
             PDict d \<Rightarrow>
               (case map_exn py_len (map snd d) of
                  Inl e \<Rightarrow> Inl e
                | Inr lens \<Rightarrow> Inr (s\<lparr>alerts := d\<rparr>))
           | _ \<Rightarrow> Inr (s\<lparr>alerts := []\<rparr>)))"

definition AlertService_init :: "durable \<Rightarrow> int \<Rightarrow> exn + AlertService" where
  "AlertService_init f m = load_alerts \<lparr>data_file = f, max_per_user = m, alerts = []\<rparr>"

text \<open>
  The outcome of the file operations of one \<^verbatim>\<open>_save_alerts\<close> call is an input: all
  succeed, or one of them raises (the write stands for \<^verbatim>\<open>json.dump\<close> as well).
  Every failure leaves the durable file as it was.
\<close>

datatype io = IoOk | MkdirFails | MkstempFails | WriteFails | ReplaceFails

definition save_alerts :: "io \<Rightarrow> AlertService \<Rightarrow> (exn + unit) \<times> AlertService" where
  "save_alerts io s =
     (case io of
        IoOk \<Rightarrow> (Inr (), s\<lparr>data_file := Document (PDict (alerts s))\<rparr>)
      | _ \<Rightarrow> (Inl OSError, s))"

definition get_user_alerts :: "AlertService \<Rightarrow> string \<Rightarrow> pyval" where
  "get_user_alerts s uid = (case map_of (alerts s) uid of None \<Rightarrow> PList [] | Some v \<Rightarrow> v)"

definition list_alerts :: "pydantic \<Rightarrow> AlertService \<Rightarrow> string \<Rightarrow> exn + Alert list" where
  "list_alerts lib s uid = bind_sum (py_iter (get_user_alerts s uid)) (map_exn (to_alert lib))"

text \<open>
  \<^verbatim>\<open>create_alert\<close>: the fresh UUID, the clock reading and the outcome of the file
  operations are inputs.  The method returns its result or exception together with
  the service as the call leaves it.
\<close>

definition new_alert_dict :: "string \<Rightarrow> string \<Rightarrow> string \<Rightarrow> pyval \<Rightarrow> (string \<times> pyval) list \<Rightarrow> pyval" where
  "new_alert_dict new_uuid now uid ty alert_data =
     PDict [(''id'', PStr new_uuid),
            (''user_id'', PStr uid),
            (''alert_type'', ty),
            (''ticker'', dict_get alert_data ''ticker''),
            (''target_price'', dict_get alert_data ''target_price''),
            (''price_direction'', dict_get alert_data ''price_direction''),
            (''target_signal'', dict_get alert_data ''target_signal''),
            (''percentage_threshold'', dict_get alert_data ''percentage_threshold''),
            (''baseline_value'', dict_get alert_data ''baseline_value''),
            (''created_at'', PStr now)]"

definition create_alert ::
  "pydantic \<Rightarrow> string \<Rightarrow> string \<Rightarrow> io \<Rightarrow> AlertService \<Rightarrow> string
     \<Rightarrow> (string \<times> pyval) list \<Rightarrow> (exn + Alert) \<times> AlertService" where
  "create_alert lib new_uuid now io s uid alert_data =
     (case py_len (get_user_alerts s uid) of
        Inl e \<Rightarrow> (Inl e, s)
      | Inr n \<Rightarrow>
          if max_per_user s \<le> n
          then (Inl (AlertLimitExceededError n (max_per_user s)), s)
          else
            (case map_of alert_data ''alert_type'' of
               None \<Rightarrow> (Inl (KeyError ''alert_type''), s)
             | Some ty \<Rightarrow>
                 (let alert_dict = new_alert_dict new_uuid now uid ty alert_data;
                      s1 = (if map_of (alerts s) uid = None
                            then s\<lparr>alerts := AList.update uid (PList []) (alerts s)\<rparr>
                            else s)
                  in case map_of (alerts s1) uid of
                       Some (PList xs) \<Rightarrow>
                         (let s2 = s1\<lparr>alerts :=
                                     AList.update uid (PList (xs @ [alert_dict])) (alerts s1)\<rparr>
                          in case save_alerts io s2 of
                               (r, s3) \<Rightarrow>
                                 (case r of
                                    Inl e \<Rightarrow> (Inl e, s3)
                                  | Inr u \<Rightarrow> (to_alert lib alert_dict, s3)))
                     | _ \<Rightarrow> (Inl AttributeError, s1))))"

definition delete_alert ::
  "io \<Rightarrow> AlertService \<Rightarrow> string \<Rightarrow> string \<Rightarrow> (exn + unit) \<times> AlertService" where
  "delete_alert io s uid aid =
     (let user_alerts = get_user_alerts s uid
      in case py_len user_alerts of
           Inl e \<Rightarrow> (Inl e, s)
         | Inr original_len \<Rightarrow>
             (case bind_sum (py_iter user_alerts)
                     (filter_exn (\<lambda>a. bind_sum (py_getitem a ''id'') (\<lambda>v. Inr (v \<noteq> PStr aid)))) of
                Inl e \<Rightarrow> (Inl e, s)
              | Inr filtered \<Rightarrow>
                  if int (length filtered) = original_len
                  then (Inl (AlertNotFoundError aid), s)
                  else save_alerts io (s\<lparr>alerts := AList.update uid (PList filtered) (alerts s)\<rparr>)))"

section \<open>Evaluation\<close>

text \<open>
  The collaborators are functions: a call returns its value, or raises, and then the
  left summand is the text of the exception (\<^verbatim>\<open>str(exc)\<close>).  A data frame is its
  \<^verbatim>\<open>Close\<close> column.  Within one evaluation the provider answers a ticker the same
  way each time it is asked.
\<close>

type_synonym DataFetcher = "string option \<Rightarrow> string + real list"

record 'ind IndicatorCalculator =
  calculate :: "real list \<Rightarrow> string + 'ind"
  get_current_price :: "real list \<Rightarrow> string + real"

type_synonym 'ind SignalGenerator = "'ind \<Rightarrow> real \<Rightarrow> string + string"

text \<open>\<^verbatim>\<open>float(df["Close"].iloc[-1])\<close>: the last closing price; an empty column raises.\<close>

definition last_close :: "real list \<Rightarrow> string + real" where
  "last_close df =
     (if df = [] then Inl ''single positional indexer is out-of-bounds'' else Inr (last df))"

text \<open>
  The two lines every price lookup consists of: fetch the history of the ticker,
  then read its last close.  Either may raise.
\<close>

definition fetch_price :: "DataFetcher \<Rightarrow> string option \<Rightarrow> string + real" where
  "fetch_price data_fetcher t = bind_sum (data_fetcher t) last_close"

text \<open>
  The texts of the exceptions Python raises when a field the strategy needs is
  \<^verbatim>\<open>None\<close>: reading \<^verbatim>\<open>.value\<close> of it, and comparing a float with it.
\<close>

definition quoted :: "string \<Rightarrow> string" where
  "quoted s = CHR 0x27 # s @ [CHR 0x27]"

definition no_attribute_value :: string where
  "no_attribute_value = quoted ''NoneType'' @ '' object has no attribute '' @ quoted ''value''"

definition not_supported :: "string \<Rightarrow> string" where
  "not_supported opr =
     quoted opr @ '' not supported between instances of '' @ quoted ''float''
       @ '' and '' @ quoted ''NoneType''"

definition alert_to_summary :: "Alert \<Rightarrow> AlertSummaryInfo" where
  "alert_to_summary a =
     \<lparr>id' = id' a, alert_type = alert_type a, ticker = ticker a,
      target_price = target_price a, price_direction = price_direction a,
      target_signal = target_signal a, percentage_threshold = percentage_threshold a,
      baseline_value = baseline_value a\<rparr>"

text \<open>The result the \<^verbatim>\<open>except\<close> branch of a ticker-based strategy builds.\<close>

definition fetch_failure :: "string \<Rightarrow> Alert \<Rightarrow> string \<Rightarrow> TriggeredAlertResult" where
  "fetch_failure now a exc =
     \<lparr>alert = alert_to_summary a, triggered = False, current_value = None, details = None,
      error = Some (''Failed to fetch data for '' @ fmt_opt_str (ticker a) @ '': '' @ exc),
      evaluated_at = now\<rparr>"

definition evaluate_price_threshold :: "string \<Rightarrow> Alert \<Rightarrow> DataFetcher \<Rightarrow> TriggeredAlertResult" where
  "evaluate_price_threshold now a data_fetcher =
     (case fetch_price data_fetcher (ticker a) of
        Inl exc \<Rightarrow> fetch_failure now a exc
      | Inr current_price \<Rightarrow>
          (case price_direction a of
             None \<Rightarrow> fetch_failure now a no_attribute_value
           | Some dir \<Rightarrow>
               if PriceDirection_value dir = ''above''
               then
                 (case target_price a of
                    None \<Rightarrow>
                      fetch_failure now a
                        (not_supported ''>'')
                  | Some target \<Rightarrow>
                      (let trig = target < current_price
                       in \<lparr>alert = alert_to_summary a, triggered = trig,
                            current_value = Some (format_fixed 2 current_price),
                            details = Some (fmt_opt_str (ticker a) @ '' current price $''
                              @ format_fixed 2 current_price @ '' is ''
                              @ (if trig then ''above'' else ''below'')
                              @ '' target $'' @ format_fixed 2 target),
                            error = None, evaluated_at = now\<rparr>))
               else
                 (case target_price a of
                    None \<Rightarrow>
                      fetch_failure now a
                        (not_supported ''<'')
                  | Some target \<Rightarrow>
                      (let trig = current_price < target
                       in \<lparr>alert = alert_to_summary a, triggered = trig,
                            current_value = Some (format_fixed 2 current_price),
                            details = Some (fmt_opt_str (ticker a) @ '' current price $''
                              @ format_fixed 2 current_price @ '' is ''
                              @ (if trig then ''below'' else ''above'')
                              @ '' target $'' @ format_fixed 2 target),
                            error = None, evaluated_at = now\<rparr>))))"

definition evaluate_signal_change ::
  "string \<Rightarrow> Alert \<Rightarrow> DataFetcher \<Rightarrow> 'ind IndicatorCalculator \<Rightarrow> 'ind SignalGenerator
     \<Rightarrow> TriggeredAlertResult" where
  "evaluate_signal_change now a data_fetcher indicator_calculator signal_generator =
     (case bind_sum (data_fetcher (ticker a)) (\<lambda>df.
           bind_sum (calculate indicator_calculator df) (\<lambda>indicators.
           bind_sum (get_current_price indicator_calculator df) (\<lambda>current_price.
             signal_generator indicators current_price))) of
        Inl exc \<Rightarrow> fetch_failure now a exc
      | Inr current_signal \<Rightarrow>
          (case target_signal a of
             None \<Rightarrow> fetch_failure now a no_attribute_value
           | Some target \<Rightarrow>
               \<lparr>alert = alert_to_summary a,
                triggered = (current_signal = SignalTarget_value target),
                current_value = Some current_signal,
                details = Some (fmt_opt_str (ticker a) @ '' current signal is '' @ current_signal
                  @ '', target is '' @ SignalTarget_value target),
                error = None, evaluated_at = now\<rparr>))"

text \<open>
  The loop over the holdings, with the running total as its accumulator: a ticker
  whose fetch (or whose last close) raises is logged and skipped; the price of any
  other is added to the total, a float addition.
\<close>

fun portfolio_total :: "DataFetcher \<Rightarrow> string list \<Rightarrow> real \<Rightarrow> real" where
  "portfolio_total data_fetcher [] total_value = total_value"
| "portfolio_total data_fetcher (t # ts) total_value =
     (case fetch_price data_fetcher (Some t) of
        Inl exc \<Rightarrow> portfolio_total data_fetcher ts total_value
      | Inr price \<Rightarrow> portfolio_total data_fetcher ts (fadd total_value price))"

definition pct_change_of :: "real \<Rightarrow> real \<Rightarrow> real" where
  "pct_change_of total_value baseline =
     (if 0 < baseline then fmul \<bar>fdiv (fsub total_value baseline) baseline\<bar> 100 else 0)"

definition evaluate_portfolio_value ::
  "string \<Rightarrow> Alert \<Rightarrow> DataFetcher \<Rightarrow> string list \<Rightarrow> TriggeredAlertResult" where
  "evaluate_portfolio_value now a data_fetcher holdings =
     (if holdings = []
      then \<lparr>alert = alert_to_summary a, triggered = False, current_value = Some ''0.00'',
             details = Some ''Portfolio has no holdings, value is $0.00'',
             error = None, evaluated_at = now\<rparr>
      else
        (let total_value = portfolio_total data_fetcher holdings 0;
             baseline = (case baseline_value a of None \<Rightarrow> 0 | Some b \<Rightarrow> if b = 0 then 0 else b);
             pct_change = pct_change_of total_value baseline
         in case percentage_threshold a of
              None \<Rightarrow>
                \<lparr>alert = alert_to_summary a, triggered = False, current_value = None,
                 details = None,
                 error = Some (''Failed to evaluate portfolio value: ''
                   @ not_supported ''>=''),
                 evaluated_at = now\<rparr>
            | Some threshold \<Rightarrow>
                (let trig = threshold \<le> pct_change
                 in \<lparr>alert = alert_to_summary a, triggered = trig,
                      current_value = Some (format_fixed 2 total_value),
                      details = Some (''Portfolio value changed by '' @ format_fixed 1 pct_change
                        @ ''% (from $'' @ format_fixed 2 baseline @ '' to $''
                        @ format_fixed 2 total_value @ ''), ''
                        @ (if trig then ''exceeds'' else ''below'') @ '' ''
                        @ format_fixed 1 threshold @ ''% threshold''),
                      error = None, evaluated_at = now\<rparr>)))"

text \<open>
  The body of the loop of \<^verbatim>\<open>check_triggered_alerts\<close>.  \<open>AlertType\<close> has three
  members, so the final \<^verbatim>\<open>else\<close> of the source (an unknown type) has no input.
\<close>

definition evaluate_alert ::
  "string \<Rightarrow> DataFetcher \<Rightarrow> 'ind IndicatorCalculator \<Rightarrow> 'ind SignalGenerator
     \<Rightarrow> string list option \<Rightarrow> Alert \<Rightarrow> TriggeredAlertResult" where
  "evaluate_alert now data_fetcher indicator_calculator signal_generator portfolio_holdings a =
     (case alert_type a of
        PRICE_THRESHOLD \<Rightarrow> evaluate_price_threshold now a data_fetcher
      | SIGNAL_CHANGE \<Rightarrow>
          evaluate_signal_change now a data_fetcher indicator_calculator signal_generator
      | PORTFOLIO_VALUE \<Rightarrow>
          evaluate_portfolio_value now a data_fetcher
            (case portfolio_holdings of None \<Rightarrow> [] | Some hs \<Rightarrow> hs))"

definition check_triggered_alerts ::
  "pydantic \<Rightarrow> string \<Rightarrow> AlertService \<Rightarrow> string \<Rightarrow> DataFetcher
     \<Rightarrow> 'ind IndicatorCalculator \<Rightarrow> 'ind SignalGenerator \<Rightarrow> string list option
     \<Rightarrow> exn + (TriggeredAlertResult list \<times> TriggeredAlertsSummary)" where
  "check_triggered_alerts lib now s uid data_fetcher indicator_calculator signal_generator
       portfolio_holdings =
     (case list_alerts lib s uid of
        Inl e \<Rightarrow> Inl e
      | Inr stored \<Rightarrow>
          (let results = map (evaluate_alert now data_fetcher indicator_calculator
                                signal_generator portfolio_holdings) stored;
               n_triggered = int (length (filter triggered results));
               n_error = int (length (filter (\<lambda>r. error r \<noteq> None) results));
               n_not_triggered = int (length results) - n_triggered - n_error
           in Inr (results,
                   \<lparr>total_alerts = int (length results), triggered_count = n_triggered,
                    not_triggered_count = n_not_triggered, error_count = n_error\<rparr>)))"

section \<open>Notions of the specification\<close>

text \<open>
  The closing prices of exactly the holdings whose price lookup succeeds, in the
  order of the holdings.
\<close>

definition fetched_closes :: "DataFetcher \<Rightarrow> string list \<Rightarrow> real list" where
  "fetched_closes data_fetcher holdings =
     map (\<lambda>t. projr (fetch_price data_fetcher (Some t)))
       (filter (\<lambda>t. \<not> isl (fetch_price data_fetcher (Some t))) holdings)"

text \<open>The sum of a list of floats, added from the left starting at zero.\<close>

definition float_sum :: "real list \<Rightarrow> real" where
  "float_sum xs = foldl fadd 0 xs"

text \<open>
  The percentage change as the specification writes it, \<open>|c - b| / b * 100\<close> for a
  positive baseline and zero otherwise, in float arithmetic.
\<close>

definition pct_change_spec :: "real \<Rightarrow> real \<Rightarrow> real" where
  "pct_change_spec c b = (if 0 < b then fmul (fdiv \<bar>fsub c b\<bar> b) 100 else 0)"

text \<open>The \<^verbatim>\<open>id\<close> of a stored entry, when the entry is a dict that has one.\<close>

definition entry_id :: "pyval \<Rightarrow> pyval option" where
  "entry_id a = (case py_getitem a ''id'' of Inl e \<Rightarrow> None | Inr v \<Rightarrow> Some v)"

text \<open>
  An entry is an alert of an owner when it is a dict whose \<^verbatim>\<open>id\<close> is a string and
  whose \<^verbatim>\<open>user_id\<close> is the owner, as \<^verbatim>\<open>create_alert\<close> builds it.
\<close>

definition is_alert_of :: "string \<Rightarrow> pyval \<Rightarrow> bool" where
  "is_alert_of uid a =
     ((case entry_id a of Some (PStr i) \<Rightarrow> True | _ \<Rightarrow> False)
      \<and> py_getitem a ''user_id'' = Inr (PStr uid))"

definition ids_of :: "pyval \<Rightarrow> pyval option list" where
  "ids_of v = (case v of PList xs \<Rightarrow> map entry_id xs | _ \<Rightarrow> [])"

definition id_in_use :: "AlertService \<Rightarrow> string \<Rightarrow> bool" where
  "id_in_use s i =
     (\<exists>u\<in>set (map fst (alerts s)). Some (PStr i) \<in> set (ids_of (get_user_alerts s u)))"

text \<open>
  The invariants of the data model, on the in-memory collection: every owner's
  entry is a list of alerts of that owner, and no id occurs under two owners.
\<close>

definition store_ok :: "AlertService \<Rightarrow> bool" where
  "store_ok s =
     ((\<forall>u\<in>set (map fst (alerts s)).
         case get_user_alerts s u of PList xs \<Rightarrow> list_all (is_alert_of u) xs | _ \<Rightarrow> False)
      \<and> (\<forall>u\<in>set (map fst (alerts s)). \<forall>w\<in>set (map fst (alerts s)).
           u \<noteq> w \<longrightarrow>
             set (ids_of (get_user_alerts s u)) \<inter> set (ids_of (get_user_alerts s w)) = {}))"

text \<open>
  Sequences of mutating calls.  A call carries what the environment supplies to it:
  for a create the UUID, the clock reading and the outcome of the file operations,
  for a delete that outcome.
\<close>

datatype operation =
    Create string "(string \<times> pyval) list" string string io
  | Delete string string io

fun step :: "pydantic \<Rightarrow> AlertService \<Rightarrow> operation \<Rightarrow> (exn + unit) \<times> AlertService" where
  "step lib s (Create uid alert_data new_uuid now io) =
     (case create_alert lib new_uuid now io s uid alert_data of
        (r, s') \<Rightarrow> ((case r of Inl e \<Rightarrow> Inl e | Inr a \<Rightarrow> Inr ()), s'))"
| "step lib s (Delete uid aid io) = delete_alert io s uid aid"

text \<open>The service after a sequence of calls, whether they return or raise.\<close>

fun run :: "pydantic \<Rightarrow> AlertService \<Rightarrow> operation list \<Rightarrow> AlertService" where
  "run lib s [] = s"
| "run lib s (x # xs) = run lib (snd (step lib s x)) xs"

text \<open>The service after a sequence of calls that all return.\<close>

fun run_ok :: "pydantic \<Rightarrow> AlertService \<Rightarrow> operation list \<Rightarrow> AlertService option" where
  "run_ok lib s [] = Some s"
| "run_ok lib s (x # xs) =
     (case step lib s x of
        (r, s') \<Rightarrow> (case r of Inl e \<Rightarrow> None | Inr u \<Rightarrow> run_ok lib s' xs))"

text \<open>Every create of the sequence is given an id no stored alert has at that moment.\<close>

fun fresh_ids :: "pydantic \<Rightarrow> AlertService \<Rightarrow> operation list \<Rightarrow> bool" where
  "fresh_ids lib s [] = True"
| "fresh_ids lib s (x # xs) =
     ((case x of
         Create uid alert_data new_uuid now io \<Rightarrow> \<not> id_in_use s new_uuid
       | Delete uid aid io \<Rightarrow> True)
      \<and> fresh_ids lib (snd (step lib s x)) xs)"

section \<open>Inputs of the worked examples\<close>

definition aapl_above_200 :: Alert where
  "aapl_above_200 =
     \<lparr>id' = ''a1'', alert_type = PRICE_THRESHOLD, ticker = Some ''AAPL'',
      target_price = Some 200, price_direction = Some ABOVE, target_signal = None,
      percentage_threshold = None, baseline_value = None,
      user_id = ''user1'', created_at = ''2024-01-01T00:00:00+00:00''\<rparr>"

definition portfolio_5_1000 :: Alert where
  "portfolio_5_1000 =
     \<lparr>id' = ''a2'', alert_type = PORTFOLIO_VALUE, ticker = None,
      target_price = None, price_direction = None, target_signal = None,
      percentage_threshold = Some 5, baseline_value = Some 1000,
      user_id = ''user1'', created_at = ''2024-01-01T00:00:00+00:00''\<rparr>"

text \<open>A provider that knows three tickers and fails on every other one.\<close>

definition abc_fetcher :: DataFetcher where
  "abc_fetcher t =
     (if t = Some ''A'' then Inr [10, 11]
      else if t = Some ''C'' then Inr [30, 31.5]
      else if t = Some ''X'' then Inr [1060]
      else Inl ''No data found'')"

text \<open>A store holding, for \<open>user1\<close>, the two alerts above as the service writes them.\<close>

definition aapl_above_200_dict :: pyval where
  "aapl_above_200_dict =
     PDict [(''id'', PStr ''a1''), (''user_id'', PStr ''user1''),
            (''alert_type'', PStr ''price_threshold''), (''ticker'', PStr ''AAPL''),
            (''target_price'', PFloat 200), (''price_direction'', PStr ''above''),
            (''target_signal'', PNone), (''percentage_threshold'', PNone),
            (''baseline_value'', PNone),
            (''created_at'', PStr ''2024-01-01T00:00:00+00:00'')]"

definition portfolio_5_1000_dict :: pyval where
  "portfolio_5_1000_dict =
     PDict [(''id'', PStr ''a2''), (''user_id'', PStr ''user1''),
            (''alert_type'', PStr ''portfolio_value''), (''ticker'', PNone),
            (''target_price'', PNone), (''price_direction'', PNone),
            (''target_signal'', PNone), (''percentage_threshold'', PFloat 5),
            (''baseline_value'', PFloat 1000),
            (''created_at'', PStr ''2024-01-01T00:00:00+00:00'')]"

definition user1_store :: AlertService where
  "user1_store =
     \<lparr>data_file = Document (PDict [(''user1'', PList [aapl_above_200_dict, portfolio_5_1000_dict])]),
      max_per_user = 10,
      alerts = [(''user1'', PList [aapl_above_200_dict, portfolio_5_1000_dict])]\<rparr>"

definition no_indicators :: "unit IndicatorCalculator" where
  "no_indicators = \<lparr>calculate = (\<lambda>df. Inr ()), get_current_price = last_close\<rparr>"

definition msft_payload :: "(string \<times> pyval) list" where
  "msft_payload =
     [(''alert_type'', PStr ''price_threshold''), (''ticker'', PStr ''MSFT''),
      (''target_price'', PFloat 400), (''price_direction'', PStr ''above'')]"

text \<open>The alert a create with that payload returns.\<close>

definition msft_alert :: Alert where
  "msft_alert =
     \<lparr>id' = ''a3'', alert_type = PRICE_THRESHOLD, ticker = Some ''MSFT'',
      target_price = Some 400, price_direction = Some ABOVE, target_signal = None,
      percentage_threshold = None, baseline_value = None,
      user_id = ''user1'', created_at = ''2024-01-02T00:00:00+00:00''\<rparr>"

text \<open>The same store with room for two alerts per owner only.\<close>

definition small_limit_store :: AlertService where
  "small_limit_store = user1_store\<lparr>max_per_user := 2\<rparr>"

text \<open>An empty store, and two owners creating one alert each.\<close>

definition empty_store :: AlertService where
  "empty_store = \<lparr>data_file = Missing, max_per_user = 10, alerts = []\<rparr>"

definition alice_bob_ops :: "operation list" where
  "alice_bob_ops =
     [Create ''alice'' msft_payload ''id1'' ''2024-01-02T00:00:00+00:00'' IoOk,
      Create ''bob'' msft_payload ''id2'' ''2024-01-03T00:00:00+00:00'' IoOk]"

definition alice_dict :: pyval where
  "alice_dict =
     new_alert_dict ''id1'' ''2024-01-02T00:00:00+00:00'' ''alice'' (PStr ''price_threshold'')
       msft_payload"

definition bob_dict :: pyval where
  "bob_dict =
     new_alert_dict ''id2'' ''2024-01-03T00:00:00+00:00'' ''bob'' (PStr ''price_threshold'')
       msft_payload"

text \<open>The service after those two creates.\<close>

definition alice_bob_store :: AlertService where
  "alice_bob_store =
     \<lparr>data_file = Document (PDict [(''alice'', PList [alice_dict]), (''bob'', PList [bob_dict])]),
      max_per_user = 10,
      alerts = [(''alice'', PList [alice_dict]), (''bob'', PList [bob_dict])]\<rparr>"

text \<open>
  An instance of the library for the examples: it coerces nothing, and takes as a
  datetime a string of the shape \<^verbatim>\<open>isoformat()\<close> writes for a UTC time.
\<close>

definition is_digit :: "char \<Rightarrow> bool" where
  "is_digit c = (c \<in> set ''0123456789'')"

fun matches_shape :: "string \<Rightarrow> string \<Rightarrow> bool" where
  "matches_shape [] [] = True"
| "matches_shape (p # ps) (c # cs) =
     ((if p = CHR ''d'' then is_digit c else p = c) \<and> matches_shape ps cs)"
| "matches_shape ps cs = False"

definition isoformat_shape :: "string \<Rightarrow> bool" where
  "isoformat_shape s =
     (matches_shape ''dddd-dd-ddTdd:dd:dd+dd:dd'' s
      \<or> matches_shape ''dddd-dd-ddTdd:dd:dd.dddddd+dd:dd'' s)"

definition example_pydantic :: pydantic where
  "example_pydantic =
     \<lparr>coerce_str = (\<lambda>v. None),
      coerce_float = (\<lambda>v. None),
      parse_datetime =
        (\<lambda>v. case v of
               PStr s \<Rightarrow> if isoformat_shape s then Some s else None
             | _ \<Rightarrow> None)\<rparr>"

text \<open>
  A portfolio alert of threshold 29 on a baseline of 100, and a provider whose
  closes are the doubles the literals \<^verbatim>\<open>0.1\<close>, \<^verbatim>\<open>0.025\<close> and \<^verbatim>\<open>129.0\<close> denote.
\<close>

definition portfolio_29_100 :: Alert where
  "portfolio_29_100 =
     \<lparr>id' = ''a4'', alert_type = PORTFOLIO_VALUE, ticker = None,
      target_price = None, price_direction = None, target_signal = None,
      percentage_threshold = Some 29, baseline_value = Some 100,
      user_id = ''user1'', created_at = ''2024-01-01T00:00:00+00:00''\<rparr>"

definition pqr_fetcher :: DataFetcher where
  "pqr_fetcher t =
     (if t = Some ''P'' then Inr [fl (1 / 10)]
      else if t = Some ''R'' then Inr [fl (1 / 40)]
      else if t = Some ''Q'' then Inr [129]
      else Inl ''No data found'')"

text \<open>
  A payload whose alert type is none of the three, the entry \<^verbatim>\<open>create_alert\<close> builds
  from it, and the store of \<open>user1\<close> with that entry appended and saved.
\<close>

definition bogus_payload :: "(string \<times> pyval) list" where
  "bogus_payload = [(''alert_type'', PStr ''bogus'')]"

definition bogus_dict :: pyval where
  "bogus_dict =
     new_alert_dict ''b1'' ''2024-01-04T00:00:00+00:00'' ''user1'' (PStr ''bogus'')
       bogus_payload"

definition bogus_store :: AlertService where
  "bogus_store =
     \<lparr>data_file =
        Document (PDict [(''user1'',
          PList [aapl_above_200_dict, portfolio_5_1000_dict, bogus_dict])]),
      max_per_user = 10,
      alerts = [(''user1'', PList [aapl_above_200_dict, portfolio_5_1000_dict, bogus_dict])]\<rparr>"

section \<open>Properties of the rounding\<close>

lemma expo_up_bounds:
  "2 ^ n \<le> x \<Longrightarrow> 2 ^ expo_up x n \<le> x \<and> x < 2 ^ (expo_up x n + 1)"
proof (induction x n rule: expo_up.induct)
  case (1 x n)
  show ?case
  proof (cases "x < 2 ^ (n + 1)")
    case True
    then have "expo_up x n = n" by (subst expo_up.simps) simp
    with "1.prems" True show ?thesis by simp
  next
    case False
    then have e: "expo_up x n = expo_up x (n + 1)" by (subst expo_up.simps) simp
    from False have "2 ^ (n + 1) \<le> x" by simp
    from "1.IH" [OF False this] e show ?thesis by simp
  qed
qed

lemma expo_down_bounds:
  "0 < x \<Longrightarrow> 1 \<le> n \<Longrightarrow> x * 2 ^ (n - 1) < 1 \<Longrightarrow>
   1 \<le> expo_down x n \<and> 1 \<le> x * 2 ^ expo_down x n \<and> x * 2 ^ (expo_down x n - 1) < 1"
proof (induction x n rule: expo_down.induct)
  case (1 x n)
  show ?case
  proof (cases "1 \<le> x * 2 ^ n")
    case True
    then have "expo_down x n = n" by (subst expo_down.simps) simp
    with "1.prems" True show ?thesis by simp
  next
    case False
    with "1.prems"(1) have c: "\<not> (x \<le> 0 \<or> 1 \<le> x * 2 ^ n)" by simp
    then have e: "expo_down x n = expo_down x (n + 1)" by (subst expo_down.simps) simp
    from False have "x * 2 ^ (n + 1 - 1) < 1" by simp
    from "1.IH" [OF c "1.prems"(1) _ this] e show ?thesis by simp
  qed
qed

lemma expo2_bounds:
  assumes "0 < x"
  shows "2 powi expo2 x \<le> x \<and> x < 2 powi (expo2 x + 1)"
proof (cases "1 \<le> x")
  case True
  then have "2 ^ 0 \<le> x" by simp
  from expo_up_bounds [OF this] True show ?thesis
    by (simp add: expo2_def power_int_def nat_add_distrib)
next
  case False
  then have "x * 2 ^ (1 - 1) < 1" by simp
  from expo_down_bounds [OF assms _ this]
  have m: "1 \<le> expo_down x 1" and lo: "1 \<le> x * 2 ^ expo_down x 1"
    and hi: "x * 2 ^ (expo_down x 1 - 1) < 1"
    by simp_all
  let ?m = "expo_down x 1"
  have p: "(0::real) < 2 ^ ?m" "(0::real) < 2 ^ (?m - 1)" by simp_all
  from lo have 1: "2 powi (- int ?m) \<le> x"
    by (simp add: power_int_minus field_simps)
  from m have "(2::real) ^ ?m = 2 * 2 ^ (?m - 1)"
    by (cases ?m) simp_all
  with hi have "x * 2 ^ ?m < 2" by simp
  then have "x < 2 / 2 ^ ?m"
    by (simp add: pos_less_divide_eq)
  moreover have "(2::real) powi (1 - int ?m) = 2 / 2 ^ ?m"
    by (simp add: power_int_diff)
  then have "(2::real) powi (- int ?m + 1) = 2 / 2 ^ ?m"
    by (simp add: add.commute)
  ultimately have 2: "x < 2 powi (- int ?m + 1)" by simp
  from 1 2 False show ?thesis by (simp add: expo2_def)
qed

lemma expo2_unique:
  assumes "0 < x" and "2 powi k \<le> x" and "x < 2 powi (k + 1)"
  shows "expo2 x = k"
proof -
  from expo2_bounds [OF assms(1)] have b: "2 powi expo2 x \<le> x" "x < 2 powi (expo2 x + 1)"
    by simp_all
  have "\<not> expo2 x < k"
  proof
    assume "expo2 x < k"
    then have "expo2 x + 1 \<le> k" by simp
    then have "(2::real) powi (expo2 x + 1) \<le> 2 powi k"
      by (rule power_int_increasing) simp
    with b(2) assms(2) show False by simp
  qed
  moreover have "\<not> k < expo2 x"
  proof
    assume "k < expo2 x"
    then have "k + 1 \<le> expo2 x" by simp
    then have "(2::real) powi (k + 1) \<le> 2 powi expo2 x"
      by (rule power_int_increasing) simp
    with b(1) assms(3) show False by simp
  qed
  ultimately show ?thesis by simp
qed

lemma round_half_even_diff: "\<bar>of_int (round_half_even y) - y\<bar> \<le> 1 / 2"
  by (auto simp: round_half_even_def Let_def)

lemma round_half_even_of_int [simp]: "round_half_even (of_int k) = k"
  by (simp add: round_half_even_def)

lemma round_half_even_minus: "round_half_even (- y) = - round_half_even y"
proof (cases "y = of_int \<lfloor>y\<rfloor>")
  case True
  then obtain k where "y = of_int k" ..
  then show ?thesis
    using round_half_even_of_int [of "- k"] by simp
next
  case False
  have d: "0 < y - of_int \<lfloor>y\<rfloor>" using False by linarith
  have u: "y < of_int \<lfloor>y\<rfloor> + 1" by linarith
  have "- real_of_int \<lfloor>y\<rfloor> - 1 \<le> - y" using u by linarith
  then have 1: "of_int (- \<lfloor>y\<rfloor> - 1) \<le> - y" by simp
  have "- y < - real_of_int \<lfloor>y\<rfloor> - 1 + 1" using d by linarith
  then have 2: "- y < of_int (- \<lfloor>y\<rfloor> - 1) + 1" by simp
  from 1 2 have f: "\<lfloor>- y\<rfloor> = - \<lfloor>y\<rfloor> - 1"
    by (rule floor_unique)
  show ?thesis
    using d by (auto simp: round_half_even_def Let_def f) 
qed

lemma fl_zero [simp]: "fl 0 = 0"
  by (simp add: fl_def)

lemma fl_eval:
  assumes "2 powi k \<le> \<bar>x\<bar>" and "\<bar>x\<bar> < 2 powi (k + 1)"
  shows "fl x = of_int (round_half_even (x / 2 powi (k - 52))) * 2 powi (k - 52)"
proof -
  have "(0::real) < 2 powi k" by simp
  with assms(1) have p: "0 < \<bar>x\<bar>" by linarith
  then have "expo2 \<bar>x\<bar> = k" using assms by (rule expo2_unique)
  with p show ?thesis by (simp add: fl_def)
qed

lemma fl_minus: "fl (- x) = - fl x"
  by (simp add: fl_def round_half_even_minus)

lemma powi_diff_52: "(2::real) powi (k - 52) = 2 powi k / 2 ^ 52"
  by (simp add: power_int_diff)

lemma powi_add_1: "(2::real) powi (k + 1) = 2 * 2 powi k"
  by (simp add: power_int_add)

text \<open>The scaled significand of a positive number lies between \<open>2\<^sup>5\<^sup>2\<close> and \<open>2\<^sup>5\<^sup>3\<close>.\<close>

lemma scaled_bounds:
  assumes "0 < x"
  shows "2 ^ 52 \<le> x / 2 powi (expo2 x - 52) \<and> x / 2 powi (expo2 x - 52) < 2 ^ 53"
proof -
  define p :: real where "p = 2 powi expo2 x"
  define c :: real where "c = 2 ^ 52"
  have p: "0 < p" and c: "0 < c" by (simp_all add: p_def c_def)
  from expo2_bounds [OF assms] have b: "p \<le> x" "x < 2 * p"
    by (simp_all add: p_def powi_add_1)
  have s: "x / 2 powi (expo2 x - 52) = x / p * c"
    by (simp add: powi_diff_52 p_def c_def)
  from b p have t: "1 \<le> x / p" "x / p < 2"
    by (simp_all add: pos_le_divide_eq pos_divide_less_eq)
  from t c have "1 * c \<le> x / p * c" "x / p * c < 2 * c"
    by (simp_all only: mult_le_cancel_right mult_less_cancel_right) simp_all
  then have "2 ^ 52 \<le> x / p * c" "x / p * c < 2 ^ 53"
    by (simp_all add: c_def)
  then show ?thesis by (simp only: s)
qed

lemma round_half_even_bounds:
  assumes "2 ^ 52 \<le> y" and "y < 2 ^ 53"
  shows "2 ^ 52 \<le> round_half_even y \<and> round_half_even y \<le> 2 ^ 53"
proof -
  from round_half_even_diff [of y]
  have "y - 1 / 2 \<le> of_int (round_half_even y)" "of_int (round_half_even y) \<le> y + 1 / 2"
    by linarith+
  with assms have "(2::real) ^ 52 - 1 / 2 \<le> of_int (round_half_even y)"
    "of_int (round_half_even y) < (2::real) ^ 53 + 1 / 2"
    by linarith+
  then have "real_of_int (2 ^ 52) - 1 / 2 \<le> of_int (round_half_even y)"
    "of_int (round_half_even y) < real_of_int (2 ^ 53) + 1 / 2"
    by simp_all
  then show ?thesis by linarith
qed

text \<open>
  The rounding of a positive number: a multiple \<open>n\<close> of the unit in the last place,
  with \<open>n\<close> between \<open>2\<^sup>5\<^sup>2\<close> and \<open>2\<^sup>5\<^sup>3\<close>.
\<close>

lemma fl_pos:
  assumes "0 < x"
  obtains n where "fl x = of_int n * 2 powi (expo2 x - 52)" and "2 ^ 52 \<le> n" and "n \<le> 2 ^ 53"
proof -
  let ?n = "round_half_even (x / 2 powi (expo2 x - 52))"
  from scaled_bounds [OF assms]
  have "2 ^ 52 \<le> x / 2 powi (expo2 x - 52)" "x / 2 powi (expo2 x - 52) < 2 ^ 53" by simp_all
  from round_half_even_bounds [OF this] have n: "2 ^ 52 \<le> ?n" "?n \<le> 2 ^ 53" by simp_all
  from assms have "fl x = of_int ?n * 2 powi (expo2 x - 52)"
    by (simp add: fl_def)
  then show ?thesis using n by (rule that)
qed

lemma fl_pos_gt: "0 < x \<Longrightarrow> 0 < fl x"
proof -
  assume "0 < x"
  then obtain n where f: "fl x = of_int n * 2 powi (expo2 x - 52)" and n: "2 ^ 52 \<le> n"
    by (rule fl_pos)
  have "(0::int) < 2 ^ 52" by simp
  then have "0 < n" using n by (rule less_le_trans)
  then show ?thesis unfolding f by simp
qed

lemma fl_power_of_two: "fl (2 powi k) = 2 powi k"
proof -
  have "fl (2 powi k) = of_int (round_half_even (2 powi k / 2 powi (k - 52))) * 2 powi (k - 52)"
    by (rule fl_eval) (simp_all add: powi_add_1)
  also have "(2::real) powi k / 2 powi (k - 52) = of_int (2 ^ 52)"
    by (simp add: powi_diff_52)
  also have "of_int (round_half_even (of_int (2 ^ 52))) * (2::real) powi (k - 52) = 2 powi k"
    by (simp only: round_half_even_of_int) (simp add: powi_diff_52)
  finally show ?thesis .
qed

lemma fl_pos_idem:
  assumes "0 < x"
  shows "fl (fl x) = fl x"
proof -
  define e where "e = expo2 x"
  define u :: real where "u = 2 powi (e - 52)"
  from assms obtain n where f: "fl x = of_int n * u" and n: "2 ^ 52 \<le> n" "n \<le> 2 ^ 53"
    unfolding u_def e_def by (rule fl_pos)
  have u: "0 < u" by (simp add: u_def)
  have e1: "(2::real) powi e = 2 ^ 52 * u" by (simp add: u_def powi_diff_52)
  show ?thesis
  proof (cases "n = 2 ^ 53")
    case True
    then have "fl x = 2 ^ 53 * u" unfolding f by simp
    also have "\<dots> = 2 * 2 powi e" unfolding e1 by simp
    also have "\<dots> = 2 powi (e + 1)" by (simp add: powi_add_1)
    finally have v: "fl x = 2 powi (e + 1)" .
    show ?thesis unfolding v by (rule fl_power_of_two)
  next
    case False
    with n have lt: "n < 2 ^ 53" by simp
    from n(1) have "real_of_int (2 ^ 52) \<le> real_of_int n" by (simp only: of_int_le_iff)
    then have r1: "(2::real) ^ 52 \<le> real_of_int n" by simp
    from lt have "real_of_int n < real_of_int (2 ^ 53)" by (simp only: of_int_less_iff)
    then have r2: "real_of_int n < 2 * 2 ^ 52" by simp
    from r1 u have "2 ^ 52 * u \<le> real_of_int n * u"
      by (simp only: mult_le_cancel_right) simp
    then have b1: "2 powi e \<le> \<bar>fl x\<bar>"
      unfolding e1 f using r1 u by (simp add: abs_mult)
    from r2 u have "real_of_int n * u < 2 * 2 ^ 52 * u"
      by (simp only: mult_less_cancel_right) simp
    then have b2: "\<bar>fl x\<bar> < 2 powi (e + 1)"
      unfolding powi_add_1 e1 f using r1 u by (simp add: abs_mult)
    have "fl (fl x) = of_int (round_half_even (fl x / u)) * u"
      unfolding u_def using b1 b2 by (rule fl_eval)
    also have "fl x / u = of_int n"
      unfolding f using u by simp
    finally show ?thesis
      unfolding round_half_even_of_int f .
  qed
qed

lemma fl_idem [simp]: "fl (fl x) = fl x"
proof -
  consider "x = 0" | "0 < x" | "x < 0" by linarith
  then show ?thesis
  proof cases
    case 1
    then show ?thesis by simp
  next
    case 2
    then show ?thesis by (rule fl_pos_idem)
  next
    case 3
    then have "0 < - x" by simp
    from fl_pos_idem [OF this] show ?thesis
      by (simp add: fl_minus)
  qed
qed

lemma fl_pos_iff [simp]: "(0 < fl x) = (0 < x)"
proof -
  consider "x = 0" | "0 < x" | "x < 0" by linarith
  then show ?thesis
  proof cases
    case 1 then show ?thesis by simp
  next
    case 2 with fl_pos_gt [OF 2] show ?thesis by simp
  next
    case 3
    then have "0 < - x" by simp
    from fl_pos_gt [OF this] 3 show ?thesis by (simp add: fl_minus)
  qed
qed

lemma fl_abs: "fl \<bar>x\<bar> = \<bar>fl x\<bar>"
proof -
  consider "x = 0" | "0 < x" | "x < 0" by linarith
  then show ?thesis
  proof cases
    case 1 then show ?thesis by simp
  next
    case 2
    then have "0 < fl x" by simp
    then have "\<bar>fl x\<bar> = fl x" by (rule abs_of_pos)
    with 2 show ?thesis by simp
  next
    case 3
    then have "0 < - x" by simp
    then have "0 < fl (- x)" by (simp only: fl_pos_iff)
    then have "fl x < 0" by (simp add: fl_minus)
    with 3 show ?thesis by (simp add: fl_minus)
  qed
qed

lemma fl_1 [simp]: "fl 1 = 1"
  using fl_eval [of 0 1] by (simp add: round_half_even_def)

lemma fl_100 [simp]: "fl 100 = 100"
  using fl_eval [of 6 100] by (simp add: round_half_even_def)

section \<open>Price threshold\<close>

lemma format_205: "format_fixed 2 205 = ''205.00''"
  by (simp add: format_fixed_def round_half_even_def Let_def zero_pad_def digit_char_def)

text \<open>
  C4.  When the fetch for a price-threshold alert succeeds with last close \<open>p\<close>, the
  verdict is true exactly when the direction is above and \<open>p\<close> exceeds the target,
  or the direction is below and \<open>p\<close> is under the target; a price equal to the
  target does not trigger; the result carries no error and reports \<open>p\<close> with two
  decimals.
\<close>

theorem price_threshold_verdict:
  assumes "data_fetcher (ticker a) = Inr df" and "df \<noteq> []" and "last df = p"
    and "price_direction a = Some dir" and "target_price a = Some target"
  shows "triggered (evaluate_price_threshold now a data_fetcher)
           = ((dir = ABOVE \<and> target < p) \<or> (dir = BELOW \<and> p < target))
       \<and> (p = target \<longrightarrow> \<not> triggered (evaluate_price_threshold now a data_fetcher))
       \<and> error (evaluate_price_threshold now a data_fetcher) = None
       \<and> current_value (evaluate_price_threshold now a data_fetcher) = Some (format_fixed 2 p)"
proof -
  have fp: "fetch_price data_fetcher (ticker a) = Inr p"
    using assms(1-3) by (simp add: fetch_price_def bind_sum_def last_close_def)
  show ?thesis
  proof (cases dir)
    case ABOVE
    with fp assms(4,5) show ?thesis
      by (simp add: evaluate_price_threshold_def Let_def)
  next
    case BELOW
    with fp assms(4,5) show ?thesis
      by (simp add: evaluate_price_threshold_def Let_def)
  qed
qed

text \<open>
  The scenario of the specification: target 200, direction above.  A last close of
  205.0 triggers and is reported as \<open>205.00\<close>; a last close of 195.0 does not trigger.
\<close>

theorem price_threshold_verdict_witness:
  "triggered (evaluate_price_threshold ''t'' aapl_above_200 (\<lambda>t. Inr [201, 205]))
   \<and> error (evaluate_price_threshold ''t'' aapl_above_200 (\<lambda>t. Inr [201, 205])) = None
   \<and> current_value (evaluate_price_threshold ''t'' aapl_above_200 (\<lambda>t. Inr [201, 205]))
       = Some ''205.00''
   \<and> \<not> triggered (evaluate_price_threshold ''t'' aapl_above_200 (\<lambda>t. Inr [205, 195]))"
proof -
  have a: "price_direction aapl_above_200 = Some ABOVE" "target_price aapl_above_200 = Some 200"
    by (simp_all add: aapl_above_200_def)
  have "(\<lambda>t. Inr [201, 205 :: real]) (ticker aapl_above_200)
          = (Inr [201, 205] :: string + real list)"
    by simp
  from price_threshold_verdict [OF this _ _ a, of 205 "''t''"]
  have 1: "triggered (evaluate_price_threshold ''t'' aapl_above_200 (\<lambda>t. Inr [201, 205]))
   \<and> error (evaluate_price_threshold ''t'' aapl_above_200 (\<lambda>t. Inr [201, 205])) = None
   \<and> current_value (evaluate_price_threshold ''t'' aapl_above_200 (\<lambda>t. Inr [201, 205]))
       = Some ''205.00''"
    by (simp add: format_205)
  have "(\<lambda>t. Inr [205, 195 :: real]) (ticker aapl_above_200)
          = (Inr [205, 195] :: string + real list)"
    by simp
  from price_threshold_verdict [OF this _ _ a, of 195 "''t''"]
  have 2: "\<not> triggered (evaluate_price_threshold ''t'' aapl_above_200 (\<lambda>t. Inr [205, 195]))"
    by simp
  from 1 2 show ?thesis by simp
qed


section \<open>Portfolio value\<close>

lemmas float_eval =
  fadd_def fsub_def fmul_def fdiv_def fl_def expo2_def expo_up.simps expo_down.simps
  round_half_even_def

lemma fdiv_abs: "0 < b \<Longrightarrow> fdiv \<bar>y\<bar> b = \<bar>fdiv y b\<bar>"
proof -
  assume "0 < b"
  then have b: "0 < fl b" by (rule fl_pos_gt)
  then have ab: "\<bar>fl b\<bar> = fl b" by (rule abs_of_pos)
  have "fdiv \<bar>y\<bar> b = fl (\<bar>fl y\<bar> / fl b)"
    by (simp add: fdiv_def fl_abs)
  also have "\<bar>fl y\<bar> / fl b = \<bar>fl y / fl b\<bar>"
    by (simp only: abs_divide ab)
  also have "fl \<bar>fl y / fl b\<bar> = \<bar>fdiv y b\<bar>"
    by (simp only: fdiv_def fl_abs)
  finally show ?thesis .
qed

lemma pct_change_of_spec: "pct_change_of c b = pct_change_spec c b"
  by (simp add: pct_change_of_def pct_change_spec_def fdiv_abs)

lemma pct_change_of_zero_total:
  assumes "0 < b"
  shows "pct_change_of 0 b = 100"
proof -
  from assms have "0 < fl b" by (rule fl_pos_gt)
  then have b: "fl b \<noteq> 0" by (metis less_irrefl)
  have 1: "fsub 0 b = - fl b"
    by (simp add: fsub_def fl_minus)
  have "fdiv (- fl b) b = fl (- fl b / fl b)"
    by (simp add: fdiv_def fl_minus)
  also from b have "- fl b / fl b = - 1" by simp
  finally have 2: "fdiv (- fl b) b = - 1"
    by (simp add: fl_minus)
  have 3: "fmul 1 100 = 100"
    by (simp add: fmul_def)
  from assms show ?thesis
    by (simp add: pct_change_of_def 1 2 3)
qed

lemma portfolio_total_foldl:
  "portfolio_total f hs acc = foldl fadd acc (fetched_closes f hs)"
proof (induction hs arbitrary: acc)
  case Nil
  show ?case by (simp add: fetched_closes_def)
next
  case (Cons t ts)
  show ?case
  proof (cases "fetch_price f (Some t)")
    case (Inl e)
    then show ?thesis using Cons.IH [of acc] by (simp add: fetched_closes_def)
  next
    case (Inr p)
    then show ?thesis using Cons.IH [of "fadd acc p"] by (simp add: fetched_closes_def)
  qed
qed

lemma portfolio_total_sum:
  "portfolio_total f hs 0 = float_sum (fetched_closes f hs)"
  by (simp add: portfolio_total_foldl float_sum_def)

lemma baseline_or_zero:
  "(case bv of None \<Rightarrow> 0 | Some b \<Rightarrow> if b = 0 then 0 else b)
     = (case bv of None \<Rightarrow> (0::real) | Some b \<Rightarrow> b)"
  by (cases bv) simp_all

lemma evaluate_portfolio_value_nonempty:
  assumes "holdings \<noteq> []" and "percentage_threshold a = Some th"
  shows "evaluate_portfolio_value now a f holdings =
     (let total_value = float_sum (fetched_closes f holdings);
          baseline = (case baseline_value a of None \<Rightarrow> 0 | Some b \<Rightarrow> b);
          pct_change = pct_change_of total_value baseline;
          trig = th \<le> pct_change
      in \<lparr>alert = alert_to_summary a, triggered = trig,
           current_value = Some (format_fixed 2 total_value),
           details = Some (''Portfolio value changed by '' @ format_fixed 1 pct_change
             @ ''% (from $'' @ format_fixed 2 baseline @ '' to $''
             @ format_fixed 2 total_value @ ''), ''
             @ (if trig then ''exceeds'' else ''below'') @ '' ''
             @ format_fixed 1 th @ ''% threshold''),
           error = None, evaluated_at = now\<rparr>)"
  using assms
  by (simp add: evaluate_portfolio_value_def Let_def portfolio_total_sum baseline_or_zero)

text \<open>
  C5.  With no holdings a portfolio-value alert is not triggered and its current
  value is zero.  Otherwise, with \<open>c\<close> the float sum of the closing prices that could
  be fetched and \<open>b\<close> the baseline (zero when the alert has none), the percentage
  change the code computes is \<open>|c - b| / b * 100\<close> in float arithmetic when \<open>b\<close> is
  positive and zero otherwise, and the alert is triggered exactly when that
  percentage change is at least the alert's percentage threshold.
\<close>

theorem portfolio_value_verdict:
  "triggered (evaluate_portfolio_value now a f []) = False
   \<and> current_value (evaluate_portfolio_value now a f []) = Some ''0.00''
   \<and> error (evaluate_portfolio_value now a f []) = None
   \<and> (holdings \<noteq> [] \<and> percentage_threshold a = Some th
        \<and> c = float_sum (fetched_closes f holdings)
        \<and> b = (case baseline_value a of None \<Rightarrow> 0 | Some v \<Rightarrow> v)
      \<longrightarrow> pct_change_of c b = (if 0 < b then fmul (fdiv \<bar>fsub c b\<bar> b) 100 else 0)
          \<and> triggered (evaluate_portfolio_value now a f holdings) = (th \<le> pct_change_of c b)
          \<and> current_value (evaluate_portfolio_value now a f holdings) = Some (format_fixed 2 c)
          \<and> details (evaluate_portfolio_value now a f holdings)
              = Some (''Portfolio value changed by '' @ format_fixed 1 (pct_change_of c b)
                  @ ''% (from $'' @ format_fixed 2 b @ '' to $'' @ format_fixed 2 c @ ''), ''
                  @ (if th \<le> pct_change_of c b then ''exceeds'' else ''below'') @ '' ''
                  @ format_fixed 1 th @ ''% threshold''))"
proof -
  have e: "triggered (evaluate_portfolio_value now a f []) = False
   \<and> current_value (evaluate_portfolio_value now a f []) = Some ''0.00''
   \<and> error (evaluate_portfolio_value now a f []) = None"
    by (simp add: evaluate_portfolio_value_def)
  have p: "pct_change_of c b = (if 0 < b then fmul (fdiv \<bar>fsub c b\<bar> b) 100 else 0)"
    by (simp add: pct_change_of_spec pct_change_spec_def)
  show ?thesis
    using e p by (auto simp: evaluate_portfolio_value_nonempty Let_def)
qed

lemma sum_X: "float_sum (fetched_closes abc_fetcher [''X'']) = 1060"
  by (simp add: fetched_closes_def fetch_price_def abc_fetcher_def bind_sum_def last_close_def
      float_sum_def float_eval)

lemma sum_Q: "float_sum (fetched_closes pqr_fetcher [''Q'']) = 129"
  by (simp add: fetched_closes_def fetch_price_def pqr_fetcher_def bind_sum_def last_close_def
      float_sum_def float_eval)

lemma pct_1060_1000: "pct_change_of 1060 1000 = 6"
  by (simp add: pct_change_of_def float_eval)

lemma pct_129_100: "pct_change_of 129 100 = 8162774324609023 / 2 ^ 48"
  by (simp add: pct_change_of_def float_eval)

lemma fmts: "format_fixed 1 6 = ''6.0''" "format_fixed 2 1000 = ''1000.00''"
   "format_fixed 2 1060 = ''1060.00''" "format_fixed 1 5 = ''5.0''"
  by (simp_all add: format_fixed_def round_half_even_def Let_def zero_pad_def digit_char_def)

text \<open>
  The scenario of the specification: threshold 5, baseline 1000, one holding whose
  last close is 1060.  The change is 6.0 percent and the alert is triggered.  At
  threshold 29, baseline 100 and close 129 the three roundings give a change just
  under 29, and the alert is not triggered.
\<close>

theorem portfolio_value_verdict_witness:
  "pct_change_of 1060 1000 = 6
   \<and> triggered (evaluate_portfolio_value ''t'' portfolio_5_1000 abc_fetcher [''X''])
   \<and> current_value (evaluate_portfolio_value ''t'' portfolio_5_1000 abc_fetcher [''X''])
       = Some ''1060.00''
   \<and> details (evaluate_portfolio_value ''t'' portfolio_5_1000 abc_fetcher [''X''])
       = Some ''Portfolio value changed by 6.0% (from $1000.00 to $1060.00), exceeds 5.0% threshold''
   \<and> \<not> triggered (evaluate_portfolio_value ''t'' portfolio_5_1000 abc_fetcher [])
   \<and> pct_change_of 129 100 < 29
   \<and> \<not> triggered (evaluate_portfolio_value ''t'' portfolio_29_100 pqr_fetcher [''Q''])"
proof -
  have h: "[''X''] \<noteq> [] \<and> percentage_threshold portfolio_5_1000 = Some 5
        \<and> 1060 = float_sum (fetched_closes abc_fetcher [''X''])
        \<and> 1000 = (case baseline_value portfolio_5_1000 of None \<Rightarrow> 0 | Some v \<Rightarrow> v)"
    by (simp add: sum_X portfolio_5_1000_def)
  from portfolio_value_verdict [of "''t''" portfolio_5_1000 abc_fetcher "[''X'']" 5 1060 1000] h
  have 1: "triggered (evaluate_portfolio_value ''t'' portfolio_5_1000 abc_fetcher [''X''])
   \<and> current_value (evaluate_portfolio_value ''t'' portfolio_5_1000 abc_fetcher [''X''])
       = Some ''1060.00''
   \<and> details (evaluate_portfolio_value ''t'' portfolio_5_1000 abc_fetcher [''X''])
       = Some ''Portfolio value changed by 6.0% (from $1000.00 to $1060.00), exceeds 5.0% threshold''
   \<and> \<not> triggered (evaluate_portfolio_value ''t'' portfolio_5_1000 abc_fetcher [])"
    by (simp add: pct_1060_1000 fmts del: One_nat_def)
  have k: "[''Q''] \<noteq> [] \<and> percentage_threshold portfolio_29_100 = Some 29
        \<and> 129 = float_sum (fetched_closes pqr_fetcher [''Q''])
        \<and> 100 = (case baseline_value portfolio_29_100 of None \<Rightarrow> 0 | Some v \<Rightarrow> v)"
    by (simp add: sum_Q portfolio_29_100_def)
  have lt: "pct_change_of 129 100 < 29"
    by (simp add: pct_129_100)
  from portfolio_value_verdict [of "''t''" portfolio_29_100 pqr_fetcher "[''Q'']" 29 129 100] k
  have "triggered (evaluate_portfolio_value ''t'' portfolio_29_100 pqr_fetcher [''Q''])
          = (29 \<le> pct_change_of 129 100)"
    by blast
  with lt have 2: "\<not> triggered (evaluate_portfolio_value ''t'' portfolio_29_100 pqr_fetcher [''Q''])"
    by simp
  from 1 2 lt pct_1060_1000 show ?thesis by blast
qed

section \<open>Portfolio value: failing lookups\<close>

lemma portfolio_total_skip:
  "isl (fetch_price f (Some t)) \<Longrightarrow> portfolio_total f (t # ts) acc = portfolio_total f ts acc"
  by (cases "fetch_price f (Some t)") simp_all

text \<open>
  C6.  For a portfolio-value alert over a non-empty list of holdings, a holding
  whose price lookup fails leaves the running total as it is and the loop goes on;
  the total is the float sum, in the order of the holdings, of the closing prices
  of exactly the holdings whose lookup succeeded, that total is the reported
  current value, and the result carries no error.
\<close>

theorem portfolio_partial_failure:
  assumes "holdings \<noteq> []" and "percentage_threshold a = Some th"
  shows "portfolio_total f holdings 0 = float_sum (fetched_closes f holdings)
       \<and> error (evaluate_portfolio_value now a f holdings) = None
       \<and> current_value (evaluate_portfolio_value now a f holdings)
           = Some (format_fixed 2 (float_sum (fetched_closes f holdings)))
       \<and> (\<forall>t ts acc. isl (fetch_price f (Some t))
             \<longrightarrow> portfolio_total f (t # ts) acc = portfolio_total f ts acc)"
proof -
  have 1: "portfolio_total f holdings 0 = float_sum (fetched_closes f holdings)"
    by (rule portfolio_total_sum)
  have 2: "error (evaluate_portfolio_value now a f holdings) = None"
    using assms by (simp add: evaluate_portfolio_value_nonempty Let_def)
  have 3: "current_value (evaluate_portfolio_value now a f holdings)
             = Some (format_fixed 2 (float_sum (fetched_closes f holdings)))"
    using assms by (simp add: evaluate_portfolio_value_nonempty Let_def)
  have 4: "\<forall>t ts acc. isl (fetch_price f (Some t))
             \<longrightarrow> portfolio_total f (t # ts) acc = portfolio_total f ts acc"
    using portfolio_total_skip by blast
  from 1 2 3 4 show ?thesis by blast
qed

lemma closes_ABC: "fetched_closes abc_fetcher [''A'', ''B'', ''C''] = [11, 63 / 2]"
  by (simp add: fetched_closes_def fetch_price_def abc_fetcher_def bind_sum_def last_close_def)

lemma sum_ABC: "float_sum (fetched_closes abc_fetcher [''A'', ''B'', ''C'']) = 85 / 2"
  by (simp add: closes_ABC float_sum_def float_eval)

lemma closes_PBR: "fetched_closes pqr_fetcher [''P'', ''B'', ''R''] = [fl (1 / 10), fl (1 / 40)]"
  by (simp add: fetched_closes_def fetch_price_def pqr_fetcher_def bind_sum_def last_close_def)

lemma sum_PBR: "float_sum (fetched_closes pqr_fetcher [''P'', ''B'', ''R'']) = 1 / 8"
  by (simp add: closes_PBR float_sum_def float_eval)

lemma exact_PBR: "fl (1 / 10) + fl (1 / 40) = 18014398509481985 / 2 ^ 57"
  by (simp add: float_eval)

lemma format_42_5: "format_fixed 2 (85 / 2) = ''42.50''"
  by (simp add: format_fixed_def round_half_even_def Let_def zero_pad_def digit_char_def)

lemma format_eighth: "format_fixed 2 (1 / 8) = ''0.12''"
  by (simp add: format_fixed_def round_half_even_def Let_def zero_pad_def digit_char_def)

text \<open>
  Holdings A, B, C where the lookup of B fails: the total is the sum of the closes
  of A and C.  With closes 0.1 and 0.025 the float sum is 0.125, printed \<open>0.12\<close>.
\<close>

theorem portfolio_partial_failure_witness:
  "isl (fetch_price abc_fetcher (Some ''B''))
   \<and> portfolio_total abc_fetcher [''A'', ''B'', ''C''] 0 = fadd 11 (63 / 2)
   \<and> error (evaluate_portfolio_value ''t'' portfolio_5_1000 abc_fetcher [''A'', ''B'', ''C'']) = None
   \<and> current_value (evaluate_portfolio_value ''t'' portfolio_5_1000 abc_fetcher [''A'', ''B'', ''C''])
       = Some ''42.50''
   \<and> portfolio_total pqr_fetcher [''P'', ''B'', ''R''] 0 = 1 / 8
   \<and> current_value (evaluate_portfolio_value ''t'' portfolio_5_1000 pqr_fetcher [''P'', ''B'', ''R''])
       = Some ''0.12''"
proof -
  have h: "[''A'', ''B'', ''C''] \<noteq> []" "percentage_threshold portfolio_5_1000 = Some 5"
    by (simp_all add: portfolio_5_1000_def)
  have k: "[''P'', ''B'', ''R''] \<noteq> []" by simp
  have b: "isl (fetch_price abc_fetcher (Some ''B''))"
    by (simp add: fetch_price_def abc_fetcher_def bind_sum_def)
  have e: "fadd 11 (63 / 2) = 85 / 2"
    by (simp add: float_eval)
  note r = portfolio_partial_failure [OF h, of abc_fetcher "''t''", unfolded sum_ABC format_42_5]
  note q = portfolio_partial_failure [OF k h(2), of pqr_fetcher "''t''", unfolded sum_PBR format_eighth]
  from r q b show ?thesis
    unfolding e by blast
qed

lemma fetched_closes_all_fail:
  "\<forall>t\<in>set hs. isl (fetch_price f (Some t)) \<Longrightarrow> fetched_closes f hs = []"
  by (simp add: fetched_closes_def)

lemma float_sum_Nil [simp]: "float_sum [] = 0"
  by (simp add: float_sum_def)

lemma fadd_zero_zero [simp]: "fadd 0 0 = 0"
  by (simp add: fadd_def)

lemma foldl_fadd_zeros: "foldl fadd 0 (fetched_closes (\<lambda>t. Inr [0]) hs) = 0"
  by (induction hs) (simp_all add: fetched_closes_def fetch_price_def bind_sum_def last_close_def)

lemma sum_fetched_closes_zero: "float_sum (fetched_closes (\<lambda>t. Inr [0]) hs) = 0"
  by (simp add: float_sum_def foldl_fadd_zeros)

lemma format_zero: "format_fixed 2 0 = ''0.00''"
  by (simp add: format_fixed_def round_half_even_def Let_def zero_pad_def digit_char_def)

text \<open>
  C10.  When the lookup of every holding of a non-empty list fails, the result
  carries no error and reports \<open>0.00\<close>; it is the very result a provider that
  prices every holding at zero gives.  With a positive baseline the percentage
  change is 100, so the alert is triggered exactly when its threshold is at most
  100.
\<close>

theorem portfolio_all_fetches_fail:
  assumes "holdings \<noteq> []" and "\<forall>t\<in>set holdings. isl (fetch_price f (Some t))"
    and "percentage_threshold a = Some th"
  shows "error (evaluate_portfolio_value now a f holdings) = None
       \<and> current_value (evaluate_portfolio_value now a f holdings) = Some ''0.00''
       \<and> evaluate_portfolio_value now a f holdings
           = evaluate_portfolio_value now a (\<lambda>t. Inr [0]) holdings
       \<and> (\<forall>b. baseline_value a = Some b \<and> 0 < b
             \<longrightarrow> pct_change_of 0 b = 100
                 \<and> triggered (evaluate_portfolio_value now a f holdings) = (th \<le> 100))"
  using assms
  by (simp add: evaluate_portfolio_value_nonempty Let_def fetched_closes_all_fail
      sum_fetched_closes_zero format_zero pct_change_of_zero_total)

text \<open>
  Two holdings the provider does not know, threshold 5, baseline 1000: no error,
  value \<open>0.00\<close>, triggered.
\<close>

theorem portfolio_all_fetches_fail_witness:
  "error (evaluate_portfolio_value ''t'' portfolio_5_1000 abc_fetcher [''B'', ''D'']) = None
   \<and> current_value (evaluate_portfolio_value ''t'' portfolio_5_1000 abc_fetcher [''B'', ''D''])
       = Some ''0.00''
   \<and> triggered (evaluate_portfolio_value ''t'' portfolio_5_1000 abc_fetcher [''B'', ''D''])
   \<and> evaluate_portfolio_value ''t'' portfolio_5_1000 abc_fetcher [''B'', ''D'']
       = evaluate_portfolio_value ''t'' portfolio_5_1000 (\<lambda>t. Inr [0]) [''B'', ''D'']"
proof -
  have h: "[''B'', ''D''] \<noteq> []"
    "\<forall>t\<in>set [''B'', ''D'']. isl (fetch_price abc_fetcher (Some t))"
    "percentage_threshold portfolio_5_1000 = Some 5"
    by (simp_all add: portfolio_5_1000_def fetch_price_def abc_fetcher_def bind_sum_def)
  have b: "baseline_value portfolio_5_1000 = Some 1000 \<and> (0::real) < 1000"
    by (simp add: portfolio_5_1000_def)
  note r = portfolio_all_fetches_fail [OF h, of "''t''"]
  from r b
  have "triggered (evaluate_portfolio_value ''t'' portfolio_5_1000 abc_fetcher [''B'', ''D''])
          = ((5::real) \<le> 100)"
    by blast
  then have t: "triggered (evaluate_portfolio_value ''t'' portfolio_5_1000 abc_fetcher [''B'', ''D''])"
    by simp
  from r t show ?thesis
    by blast
qed

section \<open>Exceptions as values\<close>

lemma bind_sum_simps [simp]:
  "bind_sum (Inr x) f = f x"
  "bind_sum (Inl e) f = Inl e"
  by (simp_all add: bind_sum_def)

lemma bind_sum_eq_Inr: "(bind_sum m f = Inr y) = (\<exists>x. m = Inr x \<and> f x = Inr y)"
  by (cases m) simp_all

lemma bind_sum_eq_Inl: "(bind_sum m f = Inl e) = (m = Inl e \<or> (\<exists>x. m = Inr x \<and> f x = Inl e))"
  by (cases m) simp_all

lemma map_exn_Inr_iff:
  "(\<exists>ys. map_exn f xs = Inr ys) = list_all (\<lambda>x. \<not> isl (f x)) xs"
  by (induction xs) (auto split: sum.splits)

lemma map_exn_Inr_set:
  "map_exn f xs = Inr ys \<Longrightarrow> y \<in> set ys \<Longrightarrow> \<exists>x\<in>set xs. f x = Inr y"
  by (induction xs arbitrary: ys) (auto split: sum.splits)

lemma map_exn_Inl_set:
  "map_exn f xs = Inl e \<Longrightarrow> \<exists>x\<in>set xs. f x = Inl e"
  by (induction xs) (auto split: sum.splits)

lemma map_exn_fails:
  assumes "x \<in> set xs" and "isl (f x)"
  shows "isl (map_exn f xs)"
  using assms by (induction xs) (auto split: sum.splits)

text \<open>Validation of a dict raises nothing but \<^verbatim>\<open>ValidationError\<close>.\<close>

lemma req_str_error: "req_str lib d k = Inl e \<Longrightarrow> e = ValidationError"
  by (auto simp: req_str_def split: option.splits pyval.splits)

lemma req_enum_error: "req_enum parse d k = Inl e \<Longrightarrow> e = ValidationError"
  by (auto simp: req_enum_def split: option.splits pyval.splits)

lemma req_datetime_error: "req_datetime lib d k = Inl e \<Longrightarrow> e = ValidationError"
  by (auto simp: req_datetime_def split: option.splits pyval.splits)

lemma opt_str_error: "opt_str lib d k = Inl e \<Longrightarrow> e = ValidationError"
  by (auto simp: opt_str_def split: option.splits pyval.splits)

lemma opt_float_error: "opt_float lib d k = Inl e \<Longrightarrow> e = ValidationError"
  by (auto simp: opt_float_def split: option.splits pyval.splits)

lemma opt_enum_error: "opt_enum parse d k = Inl e \<Longrightarrow> e = ValidationError"
  by (auto simp: opt_enum_def split: option.splits pyval.splits)

lemma to_alert_dict_error:
  assumes "to_alert lib (PDict d) = Inl e"
  shows "e = ValidationError"
  using assms
  by (auto simp: to_alert_def bind_sum_eq_Inl
      dest: req_str_error req_enum_error req_datetime_error opt_str_error opt_float_error
        opt_enum_error)

section \<open>Batch evaluation\<close>

lemma alert_fetch_failure [simp]: "alert (fetch_failure now a exc) = alert_to_summary a"
  by (simp add: fetch_failure_def)

lemma alert_evaluate_price_threshold:
  "alert (evaluate_price_threshold now a f) = alert_to_summary a"
  by (simp add: evaluate_price_threshold_def Let_def split: sum.split option.split)

lemma alert_evaluate_signal_change:
  "alert (evaluate_signal_change now a f ic sg) = alert_to_summary a"
  by (simp add: evaluate_signal_change_def split: sum.split option.split)

lemma alert_evaluate_portfolio_value:
  "alert (evaluate_portfolio_value now a f hs) = alert_to_summary a"
  by (simp add: evaluate_portfolio_value_def Let_def split: option.split)

lemma alert_evaluate_alert:
  "alert (evaluate_alert now f ic sg ph a) = alert_to_summary a"
  by (simp add: evaluate_alert_def alert_evaluate_price_threshold alert_evaluate_signal_change
      alert_evaluate_portfolio_value split: AlertType.split)

text \<open>
  What does hold: when every stored entry of the owner validates, so that they
  list as \<open>stored\<close>, the batch returns one result per stored alert, the result at
  each position being the evaluation of the alert at that position and carrying the
  summary of that alert, whatever the collaborators do, and the counts of its
  summary are the number of results, of triggered results, of results with an
  error, and the total less the other two.
\<close>

lemma batch_results_of_listing:
  assumes "list_alerts lib s uid = Inr stored"
  shows "\<exists>results summary.
           check_triggered_alerts lib now s uid f ic sg ph = Inr (results, summary)
         \<and> results = map (evaluate_alert now f ic sg ph) stored
         \<and> length results = length stored
         \<and> map alert results = map alert_to_summary stored
         \<and> total_alerts summary = int (length stored)
         \<and> triggered_count summary = int (length (filter triggered results))
         \<and> error_count summary = int (length (filter (\<lambda>r. error r \<noteq> None) results))
         \<and> not_triggered_count summary
             = total_alerts summary - triggered_count summary - error_count summary"
  using assms by (simp add: check_triggered_alerts_def Let_def alert_evaluate_alert comp_def)

lemma iso_shapes:
  "isoformat_shape ''2024-01-01T00:00:00+00:00''"
  "isoformat_shape ''2024-01-02T00:00:00+00:00''"
  "isoformat_shape ''2024-01-03T00:00:00+00:00''"
  "isoformat_shape ''2024-01-04T00:00:00+00:00''"
  by (simp_all add: isoformat_shape_def is_digit_def)

lemmas validate_defs =
  to_alert_def req_str_def req_enum_def req_datetime_def opt_str_def opt_float_def opt_enum_def
  example_pydantic_def iso_shapes

lemma to_alert_aapl: "to_alert example_pydantic aapl_above_200_dict = Inr aapl_above_200"
  by (simp add: validate_defs aapl_above_200_dict_def aapl_above_200_def)

lemma to_alert_portfolio: "to_alert example_pydantic portfolio_5_1000_dict = Inr portfolio_5_1000"
  by (simp add: validate_defs portfolio_5_1000_dict_def portfolio_5_1000_def)

lemma list_user1:
  "list_alerts example_pydantic user1_store ''user1'' = Inr [aapl_above_200, portfolio_5_1000]"
  by (simp add: list_alerts_def get_user_alerts_def user1_store_def
      to_alert_aapl to_alert_portfolio)

text \<open>
  The entry \<^verbatim>\<open>create_alert\<close> builds from a payload of unknown alert type does not
  validate, whatever the library coerces.
\<close>

lemma to_alert_bogus: "to_alert lib bogus_dict = Inl ValidationError"
  by (simp add: to_alert_def bogus_dict_def new_alert_dict_def req_str_def req_enum_def)

lemma list_alerts_bogus: "list_alerts lib bogus_store ''user1'' = Inl ValidationError"
proof -
  let ?xs = "[aapl_above_200_dict, portfolio_5_1000_dict, bogus_dict]"
  have "isl (map_exn (to_alert lib) ?xs)"
    by (rule map_exn_fails [of bogus_dict]) (simp_all add: to_alert_bogus)
  then obtain e where e: "map_exn (to_alert lib) ?xs = Inl e"
    by (cases "map_exn (to_alert lib) ?xs") simp_all
  from map_exn_Inl_set [OF e] obtain x where x: "x \<in> set ?xs" "to_alert lib x = Inl e"
    by blast
  from x(1) obtain d where "x = PDict d"
    by (auto simp: aapl_above_200_dict_def portfolio_5_1000_dict_def bogus_dict_def
        new_alert_dict_def)
  with x(2) have "e = ValidationError"
    by (auto dest: to_alert_dict_error)
  with e show ?thesis
    by (simp add: list_alerts_def get_user_alerts_def bogus_store_def)
qed

lemma create_bogus:
  "create_alert lib ''b1'' ''2024-01-04T00:00:00+00:00'' IoOk user1_store ''user1'' bogus_payload
     = (Inl ValidationError, bogus_store)"
  by (simp add: create_alert_def get_user_alerts_def user1_store_def bogus_payload_def Let_def
      save_alerts_def bogus_store_def
      to_alert_bogus [unfolded bogus_dict_def bogus_payload_def]
      bogus_dict_def [unfolded bogus_payload_def])

text \<open>
  C7.  The batch does fail as a whole for a single alert's failure.  A create with
  a payload of unknown alert type appends the entry and saves it, and only then
  raises; the owner then has three stored alerts.  The batch for that owner raises
  \<^verbatim>\<open>ValidationError\<close> out of \<^verbatim>\<open>list_alerts\<close>, whatever the collaborators do: it
  returns no result for any of the three, and the branch that would report the
  unknown type in the \<^verbatim>\<open>error\<close> field of one result is never reached.
\<close>

theorem batch_fails_on_stored_unknown_type:
  "create_alert lib ''b1'' ''2024-01-04T00:00:00+00:00'' IoOk user1_store ''user1'' bogus_payload
     = (Inl ValidationError, bogus_store)
   \<and> py_len (get_user_alerts bogus_store ''user1'') = Inr 3
   \<and> check_triggered_alerts lib now bogus_store ''user1'' f ic sg ph = Inl ValidationError"
proof -
  have "py_len (get_user_alerts bogus_store ''user1'') = Inr 3"
    by (simp add: get_user_alerts_def bogus_store_def)
  moreover have "check_triggered_alerts lib now bogus_store ''user1'' f ic sg ph = Inl ValidationError"
    by (simp add: check_triggered_alerts_def list_alerts_bogus)
  ultimately show ?thesis
    using create_bogus by blast
qed

text \<open>
  Without that entry the same store lists, and the batch returns a result for each
  of its two alerts, the failure of one provider lookup included.
\<close>

lemma eval_aapl:
  "evaluate_alert ''t'' abc_fetcher no_indicators (\<lambda>i p. Inr ''HOLD'') (Some [''X''])
     aapl_above_200
   = fetch_failure ''t'' aapl_above_200 ''No data found''"
  by (simp add: evaluate_alert_def aapl_above_200_def evaluate_price_threshold_def fetch_price_def
     abc_fetcher_def)

lemma eval_portfolio:
  "triggered (evaluate_alert ''t'' abc_fetcher no_indicators (\<lambda>i p. Inr ''HOLD'') (Some [''X''])
      portfolio_5_1000)
   \<and> error (evaluate_alert ''t'' abc_fetcher no_indicators (\<lambda>i p. Inr ''HOLD'') (Some [''X''])
      portfolio_5_1000) = None"
proof -
  have h: "[''X''] \<noteq> []" "percentage_threshold portfolio_5_1000 = Some 5"
    by (simp_all add: portfolio_5_1000_def)
  have t: "alert_type portfolio_5_1000 = PORTFOLIO_VALUE"
    and b: "baseline_value portfolio_5_1000 = Some 1000"
    by (simp_all add: portfolio_5_1000_def)
  show ?thesis
    by (simp add: evaluate_alert_def t evaluate_portfolio_value_nonempty [OF h] Let_def sum_X b
        pct_1060_1000)
qed

lemma batch_results_example:
  "\<exists>r1 r2. check_triggered_alerts example_pydantic ''t'' user1_store ''user1'' abc_fetcher
          no_indicators (\<lambda>i p. Inr ''HOLD'') (Some [''X''])
       = Inr ([r1, r2], \<lparr>total_alerts = 2, triggered_count = 1, not_triggered_count = 0,
                          error_count = 1\<rparr>)
     \<and> error r1 = Some ''Failed to fetch data for AAPL: No data found''
     \<and> triggered r2"
proof -
  have a: "ticker aapl_above_200 = Some ''AAPL''"
    by (simp add: aapl_above_200_def)
  from eval_portfolio show ?thesis
    by (simp add: check_triggered_alerts_def list_user1 Let_def eval_aapl fetch_failure_def a
        fmt_opt_str_def)
qed

section \<open>Startup\<close>

lemma load_document_dict:
  assumes "list_all (\<lambda>kv. \<not> isl (py_len (snd kv))) d"
  shows "load_alerts \<lparr>data_file = Document (PDict d), max_per_user = m, alerts = al\<rparr>
       = Inr \<lparr>data_file = Document (PDict d), max_per_user = m, alerts = d\<rparr>"
proof -
  from assms have "list_all (\<lambda>x. \<not> isl (py_len x)) (map snd d)"
    by (simp add: list_all_iff)
  then obtain ys where "map_exn py_len (map snd d) = Inr ys"
    using map_exn_Inr_iff [of py_len "map snd d"] by blast
  then show ?thesis
    by (simp add: load_alerts_def)
qed

text \<open>
  C9, as the code has it.  Constructing the service over an absent file, over a
  file whose reading raises \<^verbatim>\<open>OSError\<close>, over a file whose text \<^verbatim>\<open>json.loads\<close>
  rejects with \<^verbatim>\<open>JSONDecodeError\<close>, or over a file whose top-level JSON value is
  not an object gives an empty store.  Over a file whose top-level value is an
  object all of whose values have a length (as lists do), the store is that object,
  whatever the values hold.
\<close>

theorem startup_policy:
  "AlertService_init Missing m = Inr \<lparr>data_file = Missing, max_per_user = m, alerts = []\<rparr>
   \<and> AlertService_init Unreadable m
       = Inr \<lparr>data_file = Unreadable, max_per_user = m, alerts = []\<rparr>
   \<and> AlertService_init Malformed m
       = Inr \<lparr>data_file = Malformed, max_per_user = m, alerts = []\<rparr>
   \<and> ((\<forall>d. v \<noteq> PDict d)
        \<longrightarrow> AlertService_init (Document v) m
              = Inr \<lparr>data_file = Document v, max_per_user = m, alerts = []\<rparr>)
   \<and> (list_all (\<lambda>kv. \<not> isl (py_len (snd kv))) d
        \<longrightarrow> AlertService_init (Document (PDict d)) m
              = Inr \<lparr>data_file = Document (PDict d), max_per_user = m, alerts = d\<rparr>)"
proof -
  have 1: "(\<forall>d. v \<noteq> PDict d)
        \<longrightarrow> AlertService_init (Document v) m
              = Inr \<lparr>data_file = Document v, max_per_user = m, alerts = []\<rparr>"
    by (cases v) (simp_all add: AlertService_init_def load_alerts_def)
  have 2: "list_all (\<lambda>kv. \<not> isl (py_len (snd kv))) d
        \<longrightarrow> AlertService_init (Document (PDict d)) m
              = Inr \<lparr>data_file = Document (PDict d), max_per_user = m, alerts = d\<rparr>"
    by (simp add: AlertService_init_def load_document_dict)
  have 3: "AlertService_init Missing m = Inr \<lparr>data_file = Missing, max_per_user = m, alerts = []\<rparr>"
    "AlertService_init Unreadable m = Inr \<lparr>data_file = Unreadable, max_per_user = m, alerts = []\<rparr>"
    "AlertService_init Malformed m = Inr \<lparr>data_file = Malformed, max_per_user = m, alerts = []\<rparr>"
    by (simp_all add: AlertService_init_def load_alerts_def)
  from 1 2 3 show ?thesis by blast
qed

text \<open>
  A file holding a JSON array starts an empty store; the file the service wrote for
  \<open>user1\<close> starts the store it was written from.
\<close>

theorem startup_policy_witness:
  "AlertService_init (Document (PList [])) 10
     = Inr \<lparr>data_file = Document (PList []), max_per_user = 10, alerts = []\<rparr>
   \<and> AlertService_init (data_file user1_store) 10 = Inr user1_store"
proof -
  have h: "(\<forall>d. PList [] \<noteq> PDict d)
     \<and> list_all (\<lambda>kv. \<not> isl (py_len (snd kv)))
          [(''user1'', PList [aapl_above_200_dict, portfolio_5_1000_dict])]"
    by simp
  from startup_policy [of 10 "PList []" "[(''user1'', PList [aapl_above_200_dict, portfolio_5_1000_dict])]"] h
  show ?thesis
    by (simp add: user1_store_def)
qed

text \<open>
  C9 as stated fails: an object that maps an owner to a string is not a mapping
  from owner to alert sequence, and the store starts with it, not empty; and over a
  file that does not parse as JSON because \<^verbatim>\<open>json.loads\<close> meets an integer literal
  beyond the digit limit, the constructor fails.
\<close>

theorem startup_shape_counterexample:
  "AlertService_init (Document (PDict [(''u'', PStr ''abc'')])) 10
     = Inr \<lparr>data_file = Document (PDict [(''u'', PStr ''abc'')]), max_per_user = 10,
            alerts = [(''u'', PStr ''abc'')]\<rparr>
   \<and> [(''u'', PStr ''abc'')] \<noteq> []
   \<and> AlertService_init HugeInteger 10 = Inl ValueError"
  by (simp add: AlertService_init_def load_alerts_def)

text \<open>
  The files over which the constructor raises: one for which the existence test
  raises, one whose bytes are not UTF-8, one with an integer literal beyond the
  digit limit, one nested beyond the recursion limit, and one whose object has a
  value without a length.
\<close>

lemma startup_raises:
  "AlertService_init Inaccessible m = Inl OSError"
  "AlertService_init Undecodable m = Inl UnicodeDecodeError"
  "AlertService_init HugeInteger m = Inl ValueError"
  "AlertService_init TooDeep m = Inl RecursionError"
  "AlertService_init (Document (PDict [(''u'', PInt 5)])) m = Inl TypeError"
  by (simp_all add: AlertService_init_def load_alerts_def)


section \<open>Create and the quota\<close>

lemma get_user_alerts_update:
  "get_user_alerts (s\<lparr>alerts := AList.update uid v (alerts s)\<rparr>) w
     = (if w = uid then v else get_user_alerts s w)"
  by (simp add: get_user_alerts_def update_conv')

lemma get_user_alerts_data_file [simp]:
  "get_user_alerts (s\<lparr>data_file := f\<rparr>) w = get_user_alerts s w"
  by (simp add: get_user_alerts_def)

lemma create_alert_limit:
  assumes "py_len (get_user_alerts s uid) = Inr n" and "max_per_user s \<le> n"
  shows "create_alert lib u now io s uid d = (Inl (AlertLimitExceededError n (max_per_user s)), s)"
  using assms by (simp add: create_alert_def)

lemma create_alert_below_limit:
  assumes "get_user_alerts s uid = PList xs" and "int (length xs) < max_per_user s"
    and "map_of d ''alert_type'' = Some ty"
  shows "create_alert lib u now io s uid d =
     (case save_alerts io
             (s\<lparr>alerts := AList.update uid (PList (xs @ [new_alert_dict u now uid ty d])) (alerts s)\<rparr>) of
        (r, s3) \<Rightarrow>
          (case r of
             Inl e \<Rightarrow> (Inl e, s3)
           | Inr v \<Rightarrow> (to_alert lib (new_alert_dict u now uid ty d), s3)))"
proof (cases "map_of (alerts s) uid")
  case None
  with assms(1) have xs: "xs = []"
    by (simp add: get_user_alerts_def)
  with None assms(2,3) show ?thesis
    by (simp add: create_alert_def get_user_alerts_def Let_def update_conv')
next
  case (Some v)
  with assms(1) have v: "v = PList xs"
    by (simp add: get_user_alerts_def)
  with Some assms(2,3) show ?thesis
    by (simp add: create_alert_def get_user_alerts_def Let_def)
qed

lemma save_alerts_ok:
  "save_alerts IoOk s = (Inr (), s\<lparr>data_file := Document (PDict (alerts s))\<rparr>)"
  by (simp add: save_alerts_def)

lemma save_alerts_fails:
  "io \<noteq> IoOk \<Longrightarrow> save_alerts io s = (Inl OSError, s)"
  by (cases io) (simp_all add: save_alerts_def)

text \<open>
  C2.  When the owner's current count \<open>n\<close> is at or above the configured maximum,
  create raises \<^verbatim>\<open>AlertLimitExceededError\<close> carrying \<open>n\<close> and the maximum, and the
  service is unchanged.  When the count is below the maximum, a create with a valid
  payload whose persistence succeeds returns the alert, the owner's collection is
  the old one with exactly the new alert appended, and no other owner's collection
  changes.
\<close>

theorem quota_enforced:
  assumes "py_len (get_user_alerts s uid) = Inr n"
  shows "(max_per_user s \<le> n
            \<longrightarrow> create_alert lib u now io s uid d
                  = (Inl (AlertLimitExceededError n (max_per_user s)), s))
       \<and> (n < max_per_user s \<and> get_user_alerts s uid = PList xs
            \<and> map_of d ''alert_type'' = Some ty
            \<and> to_alert lib (new_alert_dict u now uid ty d) = Inr a
            \<longrightarrow> fst (create_alert lib u now IoOk s uid d) = Inr a
                \<and> get_user_alerts (snd (create_alert lib u now IoOk s uid d)) uid
                    = PList (xs @ [new_alert_dict u now uid ty d])
                \<and> (\<forall>w. w \<noteq> uid
                      \<longrightarrow> get_user_alerts (snd (create_alert lib u now IoOk s uid d)) w
                            = get_user_alerts s w))"
proof -
  have 1: "max_per_user s \<le> n
            \<longrightarrow> create_alert lib u now io s uid d
                  = (Inl (AlertLimitExceededError n (max_per_user s)), s)"
    using assms by (simp add: create_alert_limit)
  have 2: "fst (create_alert lib u now IoOk s uid d) = Inr a
                \<and> get_user_alerts (snd (create_alert lib u now IoOk s uid d)) uid
                    = PList (xs @ [new_alert_dict u now uid ty d])
                \<and> (\<forall>w. w \<noteq> uid
                      \<longrightarrow> get_user_alerts (snd (create_alert lib u now IoOk s uid d)) w
                            = get_user_alerts s w)"
    if h: "n < max_per_user s" "get_user_alerts s uid = PList xs"
      "map_of d ''alert_type'' = Some ty" "to_alert lib (new_alert_dict u now uid ty d) = Inr a"
  proof -
    from assms h(2) have "n = int (length xs)" by simp
    with h(1) have "int (length xs) < max_per_user s" by simp
    from create_alert_below_limit [OF h(2) this h(3), of lib u now IoOk] h(4)
    show ?thesis
      by (simp add: save_alerts_ok get_user_alerts_update)
  qed
  from 1 2 show ?thesis by blast
qed

lemma to_alert_msft:
  "to_alert example_pydantic (new_alert_dict ''a3'' ''2024-01-02T00:00:00+00:00'' ''user1''
       (PStr ''price_threshold'') msft_payload) = Inr msft_alert"
  by (simp add: validate_defs new_alert_dict_def msft_payload_def msft_alert_def dict_get_def)

lemma user1_entries:
  "get_user_alerts user1_store ''user1'' = PList [aapl_above_200_dict, portfolio_5_1000_dict]"
  "get_user_alerts small_limit_store ''user1'' = PList [aapl_above_200_dict, portfolio_5_1000_dict]"
  by (simp_all add: get_user_alerts_def user1_store_def small_limit_store_def)

text \<open>
  With a maximum of two and two stored alerts the third create is refused with
  counts 2 and 2; with a maximum of ten it returns the alert and the collection has
  three entries.
\<close>

theorem quota_enforced_witness:
  "create_alert example_pydantic ''a3'' ''2024-01-02T00:00:00+00:00'' IoOk small_limit_store ''user1'' msft_payload
     = (Inl (AlertLimitExceededError 2 2), small_limit_store)
   \<and> fst (create_alert example_pydantic ''a3'' ''2024-01-02T00:00:00+00:00'' IoOk user1_store ''user1'' msft_payload)
       = Inr msft_alert
   \<and> get_user_alerts
        (snd (create_alert example_pydantic ''a3'' ''2024-01-02T00:00:00+00:00'' IoOk user1_store ''user1''
                msft_payload)) ''user1''
       = PList [aapl_above_200_dict, portfolio_5_1000_dict,
                new_alert_dict ''a3'' ''2024-01-02T00:00:00+00:00'' ''user1''
                  (PStr ''price_threshold'') msft_payload]"
proof -
  have n: "py_len (get_user_alerts small_limit_store ''user1'') = Inr 2"
    "py_len (get_user_alerts user1_store ''user1'') = Inr 2"
    by (simp_all add: user1_entries)
  have m: "max_per_user small_limit_store = 2" "max_per_user user1_store = 10"
    by (simp_all add: small_limit_store_def user1_store_def)
  have ty: "map_of msft_payload ''alert_type'' = Some (PStr ''price_threshold'')"
    by (simp add: msft_payload_def)
  from quota_enforced [OF n(1), of example_pydantic "''a3''" "''2024-01-02T00:00:00+00:00''" IoOk msft_payload] m(1)
  have 1: "create_alert example_pydantic ''a3'' ''2024-01-02T00:00:00+00:00'' IoOk small_limit_store ''user1'' msft_payload
     = (Inl (AlertLimitExceededError 2 2), small_limit_store)"
    by simp
  from quota_enforced [OF n(2), of example_pydantic "''a3''" "''2024-01-02T00:00:00+00:00''" IoOk msft_payload
      "[aapl_above_200_dict, portfolio_5_1000_dict]" "PStr ''price_threshold''" msft_alert]
    m(2) ty to_alert_msft user1_entries(1)
  have 2: "fst (create_alert example_pydantic ''a3'' ''2024-01-02T00:00:00+00:00'' IoOk user1_store ''user1'' msft_payload)
       = Inr msft_alert
   \<and> get_user_alerts
        (snd (create_alert example_pydantic ''a3'' ''2024-01-02T00:00:00+00:00'' IoOk user1_store ''user1''
                msft_payload)) ''user1''
       = PList [aapl_above_200_dict, portfolio_5_1000_dict,
                new_alert_dict ''a3'' ''2024-01-02T00:00:00+00:00'' ''user1''
                  (PStr ''price_threshold'') msft_payload]"
    by simp
  from 1 2 show ?thesis by blast
qed


section \<open>Delete\<close>

lemma filter_exn_ids:
  "list_all (\<lambda>a. entry_id a \<noteq> None) xs \<Longrightarrow>
   filter_exn (\<lambda>a. bind_sum (py_getitem a ''id'') (\<lambda>v. Inr (v \<noteq> PStr aid))) xs
     = Inr (filter (\<lambda>a. entry_id a \<noteq> Some (PStr aid)) xs)"
  by (induction xs) (auto simp: entry_id_def bind_sum_def split: sum.splits)

lemma length_filter_eq_iff:
  "(length (filter P xs) = length xs) = (\<forall>x\<in>set xs. P x)"
proof (cases "\<forall>x\<in>set xs. P x")
  case True
  then show ?thesis by simp
next
  case False
  then obtain x where "x \<in> set xs" "\<not> P x" by blast
  then have "length (filter P xs) < length xs"
    by (rule length_filter_less)
  with False show ?thesis by simp
qed

lemma delete_alert_list:
  assumes "get_user_alerts s uid = PList xs" and "list_all (\<lambda>a. entry_id a \<noteq> None) xs"
  shows "delete_alert io s uid aid =
     (if Some (PStr aid) \<in> set (map entry_id xs)
      then save_alerts io
             (s\<lparr>alerts := AList.update uid
                  (PList (filter (\<lambda>a. entry_id a \<noteq> Some (PStr aid)) xs)) (alerts s)\<rparr>)
      else (Inl (AlertNotFoundError aid), s))"
proof -
  note fe = filter_exn_ids [OF assms(2), of aid]
  have "(length (filter (\<lambda>a. entry_id a \<noteq> Some (PStr aid)) xs) = length xs)
          = (Some (PStr aid) \<notin> set (map entry_id xs))"
    by (force simp: length_filter_eq_iff image_iff)
  then show ?thesis
    by (simp add: delete_alert_def Let_def assms(1) fe)
qed


section \<open>Failing persistence\<close>

text \<open>
  C1, as the code has it.  Both methods change the in-memory collection first and
  persist afterwards, and neither undoes the change when persisting raises.  So
  when a file operation fails, the \<^verbatim>\<open>OSError\<close> reaches the caller and the durable
  file is as before, but in memory the created alert stays appended, and the
  deleted alert stays removed.
\<close>

theorem persistence_failure_keeps_mutation:
  assumes "io \<noteq> IoOk"
  shows "(get_user_alerts s uid = PList xs \<and> int (length xs) < max_per_user s
            \<and> map_of d ''alert_type'' = Some ty
          \<longrightarrow> create_alert lib u now io s uid d
                = (Inl OSError,
                   s\<lparr>alerts := AList.update uid
                        (PList (xs @ [new_alert_dict u now uid ty d])) (alerts s)\<rparr>))
       \<and> (get_user_alerts s uid = PList xs \<and> list_all (\<lambda>a. entry_id a \<noteq> None) xs
            \<and> Some (PStr aid) \<in> set (map entry_id xs)
          \<longrightarrow> delete_alert io s uid aid
                = (Inl OSError,
                   s\<lparr>alerts := AList.update uid
                        (PList (filter (\<lambda>a. entry_id a \<noteq> Some (PStr aid)) xs)) (alerts s)\<rparr>))"
proof -
  have 1: "create_alert lib u now io s uid d
                = (Inl OSError,
                   s\<lparr>alerts := AList.update uid
                        (PList (xs @ [new_alert_dict u now uid ty d])) (alerts s)\<rparr>)"
    if "get_user_alerts s uid = PList xs" "int (length xs) < max_per_user s"
      "map_of d ''alert_type'' = Some ty"
    using create_alert_below_limit [OF that, of lib u now io] assms
    by (simp add: save_alerts_fails)
  have 2: "delete_alert io s uid aid
                = (Inl OSError,
                   s\<lparr>alerts := AList.update uid
                        (PList (filter (\<lambda>a. entry_id a \<noteq> Some (PStr aid)) xs)) (alerts s)\<rparr>)"
    if "get_user_alerts s uid = PList xs" "list_all (\<lambda>a. entry_id a \<noteq> None) xs"
      "Some (PStr aid) \<in> set (map entry_id xs)"
    using delete_alert_list [OF that(1,2), of io aid] that(3) assms
    by (simp add: save_alerts_fails)
  from 1 2 show ?thesis by blast
qed

lemma user1_ids:
  "entry_id aapl_above_200_dict = Some (PStr ''a1'')"
  "entry_id portfolio_5_1000_dict = Some (PStr ''a2'')"
  by (simp_all add: entry_id_def aapl_above_200_dict_def portfolio_5_1000_dict_def)

lemma user1_alerts: "alerts user1_store = [(''user1'', PList [aapl_above_200_dict, portfolio_5_1000_dict])]"
  by (simp add: user1_store_def)

text \<open>
  A failing write during a create and a failing rename during a delete, on the
  store of \<open>user1\<close>.
\<close>

theorem persistence_failure_keeps_mutation_witness:
  "create_alert example_pydantic ''a3'' ''2024-01-02T00:00:00+00:00'' WriteFails user1_store ''user1'' msft_payload
     = (Inl OSError,
        user1_store\<lparr>alerts :=
          [(''user1'', PList [aapl_above_200_dict, portfolio_5_1000_dict,
              new_alert_dict ''a3'' ''2024-01-02T00:00:00+00:00'' ''user1''
                (PStr ''price_threshold'') msft_payload])]\<rparr>)
   \<and> delete_alert ReplaceFails user1_store ''user1'' ''a1''
     = (Inl OSError, user1_store\<lparr>alerts := [(''user1'', PList [portfolio_5_1000_dict])]\<rparr>)"
proof -
  have h: "get_user_alerts user1_store ''user1'' = PList [aapl_above_200_dict, portfolio_5_1000_dict]
     \<and> int (length [aapl_above_200_dict, portfolio_5_1000_dict]) < max_per_user user1_store
     \<and> map_of msft_payload ''alert_type'' = Some (PStr ''price_threshold'')
     \<and> list_all (\<lambda>a. entry_id a \<noteq> None) [aapl_above_200_dict, portfolio_5_1000_dict]
     \<and> Some (PStr ''a1'') \<in> set (map entry_id [aapl_above_200_dict, portfolio_5_1000_dict])"
    by (simp add: user1_entries user1_ids msft_payload_def) (simp add: user1_store_def)
  have w: "WriteFails \<noteq> IoOk" and r: "ReplaceFails \<noteq> IoOk"
    by simp_all
  from persistence_failure_keeps_mutation [OF w, of user1_store "''user1''"
      "[aapl_above_200_dict, portfolio_5_1000_dict]" msft_payload "PStr ''price_threshold''"
      example_pydantic "''a3''" "''2024-01-02T00:00:00+00:00''"] h
  have 1: "create_alert example_pydantic ''a3'' ''2024-01-02T00:00:00+00:00'' WriteFails user1_store ''user1'' msft_payload
     = (Inl OSError,
        user1_store\<lparr>alerts :=
          [(''user1'', PList [aapl_above_200_dict, portfolio_5_1000_dict,
              new_alert_dict ''a3'' ''2024-01-02T00:00:00+00:00'' ''user1''
                (PStr ''price_threshold'') msft_payload])]\<rparr>)"
    by (simp add: user1_alerts)
  from persistence_failure_keeps_mutation [OF r, where s = user1_store and uid = "''user1''"
      and xs = "[aapl_above_200_dict, portfolio_5_1000_dict]" and aid = "''a1''"] h
  have 2: "delete_alert ReplaceFails user1_store ''user1'' ''a1''
     = (Inl OSError, user1_store\<lparr>alerts := [(''user1'', PList [portfolio_5_1000_dict])]\<rparr>)"
    by (simp add: user1_alerts user1_ids)
  from 1 2 show ?thesis by blast
qed

text \<open>
  C1 as stated fails: after a create whose write fails, the caller has the error,
  the durable file is unchanged, and the in-memory collection differs from the one
  before the call.
\<close>

theorem persistence_failure_counterexample:
  "fst (create_alert example_pydantic ''a3'' ''2024-01-02T00:00:00+00:00'' WriteFails user1_store ''user1''
          msft_payload) = Inl OSError
   \<and> data_file (snd (create_alert example_pydantic ''a3'' ''2024-01-02T00:00:00+00:00'' WriteFails user1_store
          ''user1'' msft_payload)) = data_file user1_store
   \<and> alerts (snd (create_alert example_pydantic ''a3'' ''2024-01-02T00:00:00+00:00'' WriteFails user1_store
          ''user1'' msft_payload)) \<noteq> alerts user1_store"
proof -
  have l: "int (length [aapl_above_200_dict, portfolio_5_1000_dict]) < max_per_user user1_store"
    by (simp add: user1_store_def)
  have t: "map_of msft_payload ''alert_type'' = Some (PStr ''price_threshold'')"
    by (simp add: msft_payload_def)
  have "create_alert example_pydantic ''a3'' ''2024-01-02T00:00:00+00:00'' WriteFails user1_store ''user1'' msft_payload
     = (Inl OSError,
        user1_store\<lparr>alerts := AList.update ''user1''
          (PList ([aapl_above_200_dict, portfolio_5_1000_dict] @
              [new_alert_dict ''a3'' ''2024-01-02T00:00:00+00:00'' ''user1''
                (PStr ''price_threshold'') msft_payload])) (alerts user1_store)\<rparr>)"
    by (simp add: create_alert_below_limit [OF user1_entries(1) l t] save_alerts_fails)
  then show ?thesis
    by (simp add: user1_alerts)
qed


section \<open>Invariants of the store\<close>

lemma get_user_alerts_not_owner:
  "uid \<notin> set (map fst (alerts s)) \<Longrightarrow> get_user_alerts s uid = PList []"
  by (simp add: get_user_alerts_def map_of_eq_None_iff [THEN iffD2])

lemma ids_of_Nil [simp]: "ids_of (PList []) = []"
  by (simp add: ids_of_def)

lemma store_ok_iff:
  "store_ok s =
     ((\<forall>u. \<exists>xs. get_user_alerts s u = PList xs \<and> list_all (is_alert_of u) xs)
      \<and> (\<forall>u w. u \<noteq> w \<longrightarrow>
            set (ids_of (get_user_alerts s u)) \<inter> set (ids_of (get_user_alerts s w)) = {}))"
  (is "_ = (?A \<and> ?B)")
proof
  assume ok: "store_ok s"
  have A: ?A
  proof
    fix u
    show "\<exists>xs. get_user_alerts s u = PList xs \<and> list_all (is_alert_of u) xs"
    proof (cases "u \<in> set (map fst (alerts s))")
      case True
      with ok have "case get_user_alerts s u of PList xs \<Rightarrow> list_all (is_alert_of u) xs | _ \<Rightarrow> False"
        unfolding store_ok_def by blast
      then show ?thesis by (cases "get_user_alerts s u") simp_all
    next
      case False
      then show ?thesis by (simp add: get_user_alerts_not_owner)
    qed
  qed
  have B: ?B
  proof (intro allI impI)
    fix u w :: string
    assume ne: "u \<noteq> w"
    show "set (ids_of (get_user_alerts s u)) \<inter> set (ids_of (get_user_alerts s w)) = {}"
    proof (cases "u \<in> set (map fst (alerts s)) \<and> w \<in> set (map fst (alerts s))")
      case True
      with ok ne show ?thesis unfolding store_ok_def by blast
    next
      case False
      then have "get_user_alerts s u = PList [] \<or> get_user_alerts s w = PList []"
        using get_user_alerts_not_owner by blast
      then show ?thesis by auto
    qed
  qed
  from A B show "?A \<and> ?B" ..
next
  assume h: "?A \<and> ?B"
  have 1: "\<forall>u\<in>set (map fst (alerts s)).
         case get_user_alerts s u of PList xs \<Rightarrow> list_all (is_alert_of u) xs | _ \<Rightarrow> False"
  proof
    fix u assume "u \<in> set (map fst (alerts s))"
    from h obtain xs where "get_user_alerts s u = PList xs" "list_all (is_alert_of u) xs"
      by blast
    then show "case get_user_alerts s u of PList xs \<Rightarrow> list_all (is_alert_of u) xs | _ \<Rightarrow> False"
      by simp
  qed
  from h 1 show "store_ok s"
    unfolding store_ok_def by blast
qed

lemma id_in_use_iff:
  "id_in_use s i = (\<exists>u. Some (PStr i) \<in> set (ids_of (get_user_alerts s u)))"
proof
  assume "id_in_use s i"
  then show "\<exists>u. Some (PStr i) \<in> set (ids_of (get_user_alerts s u))"
    unfolding id_in_use_def by blast
next
  assume "\<exists>u. Some (PStr i) \<in> set (ids_of (get_user_alerts s u))"
  then obtain u where u: "Some (PStr i) \<in> set (ids_of (get_user_alerts s u))" ..
  have "u \<in> set (map fst (alerts s))"
  proof (rule ccontr)
    assume "u \<notin> set (map fst (alerts s))"
    then have "get_user_alerts s u = PList []" by (rule get_user_alerts_not_owner)
    with u show False by simp
  qed
  with u show "id_in_use s i"
    unfolding id_in_use_def by blast
qed

lemma store_ok_cong:
  "(\<And>u. get_user_alerts s' u = get_user_alerts s u) \<Longrightarrow> store_ok s' = store_ok s"
  by (simp add: store_ok_iff)

lemma store_ok_data_file [simp]: "store_ok (s\<lparr>data_file := f\<rparr>) = store_ok s"
  by (rule store_ok_cong) simp

lemma entry_id_new_alert_dict [simp]:
  "entry_id (new_alert_dict u now uid ty d) = Some (PStr u)"
  by (simp add: entry_id_def new_alert_dict_def)

lemma is_alert_of_new_alert_dict [simp]:
  "is_alert_of uid (new_alert_dict u now uid ty d)"
  by (simp add: is_alert_of_def new_alert_dict_def entry_id_def)

lemma store_ok_append:
  assumes ok: "store_ok s" and xs: "get_user_alerts s uid = PList xs"
    and a: "is_alert_of uid a" "entry_id a = Some (PStr i)" and fresh: "\<not> id_in_use s i"
  shows "store_ok (s\<lparr>alerts := AList.update uid (PList (xs @ [a])) (alerts s)\<rparr>)"
proof -
  let ?s' = "s\<lparr>alerts := AList.update uid (PList (xs @ [a])) (alerts s)\<rparr>"
  have g: "\<And>w. get_user_alerts ?s' w = (if w = uid then PList (xs @ [a]) else get_user_alerts s w)"
    by (rule get_user_alerts_update)
  from ok have A: "\<And>u. \<exists>ys. get_user_alerts s u = PList ys \<and> list_all (is_alert_of u) ys"
    and B: "\<And>u w. u \<noteq> w \<Longrightarrow>
            set (ids_of (get_user_alerts s u)) \<inter> set (ids_of (get_user_alerts s w)) = {}"
    unfolding store_ok_iff by blast+
  from fresh have F: "\<And>u. Some (PStr i) \<notin> set (ids_of (get_user_alerts s u))"
    unfolding id_in_use_iff by blast
  have A': "\<exists>ys. get_user_alerts ?s' u = PList ys \<and> list_all (is_alert_of u) ys" for u
  proof (cases "u = uid")
    case True
    from A [of uid] xs have "list_all (is_alert_of uid) xs" by simp
    with True a(1) show ?thesis by (simp add: g)
  next
    case False
    with A [of u] show ?thesis by (simp add: g)
  qed
  have ids: "set (ids_of (PList (xs @ [a]))) = insert (Some (PStr i)) (set (ids_of (get_user_alerts s uid)))"
    using xs a(2) by (simp add: ids_of_def)
  have B': "set (ids_of (get_user_alerts ?s' u)) \<inter> set (ids_of (get_user_alerts ?s' w)) = {}"
    if ne: "u \<noteq> w" for u w
  proof -
    consider "u = uid" "w \<noteq> uid" | "w = uid" "u \<noteq> uid" | "u \<noteq> uid" "w \<noteq> uid"
      using ne by blast
    then show ?thesis
    proof cases
      case 1
      with B [of uid w] F [of w] show ?thesis by (simp add: g ids)
    next
      case 2
      with B [of u uid] F [of u] show ?thesis by (simp add: g ids)
    next
      case 3
      with B [OF ne] show ?thesis by (simp add: g)
    qed
  qed
  from A' B' show ?thesis
    unfolding store_ok_iff by blast
qed

lemma store_ok_subset:
  assumes ok: "store_ok s" and xs: "get_user_alerts s uid = PList xs"
    and sub: "set ys \<subseteq> set xs"
  shows "store_ok (s\<lparr>alerts := AList.update uid (PList ys) (alerts s)\<rparr>)"
proof -
  let ?s' = "s\<lparr>alerts := AList.update uid (PList ys) (alerts s)\<rparr>"
  have g: "\<And>w. get_user_alerts ?s' w = (if w = uid then PList ys else get_user_alerts s w)"
    by (rule get_user_alerts_update)
  from ok have A: "\<And>u. \<exists>zs. get_user_alerts s u = PList zs \<and> list_all (is_alert_of u) zs"
    and B: "\<And>u w. u \<noteq> w \<Longrightarrow>
            set (ids_of (get_user_alerts s u)) \<inter> set (ids_of (get_user_alerts s w)) = {}"
    unfolding store_ok_iff by blast+
  have A': "\<exists>zs. get_user_alerts ?s' u = PList zs \<and> list_all (is_alert_of u) zs" for u
  proof (cases "u = uid")
    case True
    from A [of uid] xs have "list_all (is_alert_of uid) xs" by simp
    with sub have "list_all (is_alert_of uid) ys" by (auto simp: list_all_iff)
    with True show ?thesis by (simp add: g)
  next
    case False
    with A [of u] show ?thesis by (simp add: g)
  qed
  have ids: "set (ids_of (PList ys)) \<subseteq> set (ids_of (get_user_alerts s uid))"
    using xs sub by (auto simp: ids_of_def)
  have B': "set (ids_of (get_user_alerts ?s' u)) \<inter> set (ids_of (get_user_alerts ?s' w)) = {}"
    if ne: "u \<noteq> w" for u w
  proof -
    consider "u = uid" "w \<noteq> uid" | "w = uid" "u \<noteq> uid" | "u \<noteq> uid" "w \<noteq> uid"
      using ne by blast
    then show ?thesis
    proof cases
      case 1
      with B [of uid w] ids show ?thesis by (auto simp: g)
    next
      case 2
      with B [of u uid] ids show ?thesis by (auto simp: g)
    next
      case 3
      with B [OF ne] show ?thesis by (simp add: g)
    qed
  qed
  from A' B' show ?thesis
    unfolding store_ok_iff by blast
qed

lemma is_alert_of_entry_id: "is_alert_of u a \<Longrightarrow> \<exists>i. entry_id a = Some (PStr i)"
  by (auto simp: is_alert_of_def split: option.splits pyval.splits)

lemma store_ok_create:
  assumes ok: "store_ok s" and fresh: "\<not> id_in_use s u"
  shows "store_ok (snd (create_alert lib u now io s uid d))"
proof -
  from ok obtain xs where xs: "get_user_alerts s uid = PList xs"
    unfolding store_ok_iff by blast
  show ?thesis
  proof (cases "max_per_user s \<le> int (length xs)")
    case True
    with xs ok show ?thesis by (simp add: create_alert_limit)
  next
    case False
    then have lt: "int (length xs) < max_per_user s" by simp
    show ?thesis
    proof (cases "map_of d ''alert_type''")
      case None
      with xs lt ok show ?thesis by (simp add: create_alert_def)
    next
      case (Some ty)
      have s2: "store_ok (s\<lparr>alerts := AList.update uid
                   (PList (xs @ [new_alert_dict u now uid ty d])) (alerts s)\<rparr>)"
        by (rule store_ok_append [OF ok xs _ _ fresh]) simp_all
      show ?thesis
      proof (cases "io = IoOk")
        case True
        with s2 show ?thesis
          by (simp add: create_alert_below_limit [OF xs lt Some] save_alerts_ok
              update_conv' get_user_alerts_def store_ok_data_file [unfolded get_user_alerts_def]
              split: sum.split)
      next
        case False
        with s2 show ?thesis
          by (simp add: create_alert_below_limit [OF xs lt Some] save_alerts_fails)
      qed
    qed
  qed
qed

lemma store_ok_delete:
  assumes ok: "store_ok s"
  shows "store_ok (snd (delete_alert io s uid aid))"
proof -
  from ok obtain xs where xs: "get_user_alerts s uid = PList xs"
    and al: "list_all (is_alert_of uid) xs"
    unfolding store_ok_iff by blast
  from al have ids: "list_all (\<lambda>a. entry_id a \<noteq> None) xs"
    by (auto simp: list_all_iff dest: is_alert_of_entry_id)
  have s2: "store_ok (s\<lparr>alerts := AList.update uid
               (PList (filter (\<lambda>a. entry_id a \<noteq> Some (PStr aid)) xs)) (alerts s)\<rparr>)"
    by (rule store_ok_subset [OF ok xs]) simp
  show ?thesis
  proof (cases "io = IoOk")
    case True
    with s2 ok show ?thesis
      by (simp add: delete_alert_list [OF xs ids] save_alerts_ok del: set_map)
  next
    case False
    with s2 ok show ?thesis
      by (simp add: delete_alert_list [OF xs ids] save_alerts_fails del: set_map)
  qed
qed

lemma store_ok_step:
  assumes "store_ok s" and "fresh_ids lib s [x]"
  shows "store_ok (snd (step lib s x))"
proof (cases x)
  case (Create uid d u now io)
  with assms show ?thesis
    using store_ok_create [of s u lib now io uid d]
    by (cases "create_alert lib u now io s uid d") simp
next
  case (Delete uid aid io)
  with assms show ?thesis
    by (simp add: store_ok_delete)
qed

lemma store_ok_run:
  "store_ok s \<Longrightarrow> fresh_ids lib s ops \<Longrightarrow> store_ok (run lib s ops)"
proof (induction ops arbitrary: s)
  case Nil
  then show ?case by simp
next
  case (Cons x ops)
  from Cons.prems have "fresh_ids lib s [x]" by simp
  with Cons.prems(1) have "store_ok (snd (step lib s x))" by (rule store_ok_step)
  moreover from Cons.prems have "fresh_ids lib (snd (step lib s x)) ops" by simp
  ultimately show ?case using Cons.IH by simp
qed


section \<open>Ownership isolation\<close>

lemma req_str_PStr: "map_of d k = Some (PStr v) \<Longrightarrow> req_str lib d k = Inr v"
  by (simp add: req_str_def)

lemma to_alert_ids:
  assumes "is_alert_of B y" and "to_alert lib y = Inr b"
  shows "user_id b = B \<and> entry_id y = Some (PStr (id' b))"
proof -
  from assms(2) obtain d where d: "y = PDict d"
    by (cases y) (simp_all add: to_alert_def)
  from assms(1) d obtain i where i: "map_of d ''id'' = Some (PStr i)"
    and u: "map_of d ''user_id'' = Some (PStr B)"
    by (auto simp: is_alert_of_def entry_id_def split: option.splits pyval.splits sum.splits)
  from assms(2) d have "id' b = i" "user_id b = B"
    by (auto simp: to_alert_def bind_sum_eq_Inr req_str_PStr [OF i] req_str_PStr [OF u])
  with d i show ?thesis
    by (simp add: entry_id_def)
qed

text \<open>
  C3.  Start from a store that satisfies the invariants (the empty store does) and
  run any sequence of creates and deletes in which every create is given a fresh
  id, as a UUID is.  Then for distinct owners A and B, an alert in A's collection
  is not in B's collection, no alert that B's list returns has its id or another
  owner than B, and a delete by B of that id raises \<^verbatim>\<open>AlertNotFoundError\<close> and
  leaves the service, hence both collections, unchanged.
\<close>

theorem ownership_isolation:
  assumes "store_ok s0" and "fresh_ids lib s0 ops" and "A \<noteq> B"
    and "get_user_alerts (run lib s0 ops) A = PList xs" and "a \<in> set xs"
    and "entry_id a = Some (PStr i)"
  shows "(\<forall>ys. get_user_alerts (run lib s0 ops) B = PList ys \<longrightarrow> a \<notin> set ys)
       \<and> (\<forall>bs. list_alerts lib (run lib s0 ops) B = Inr bs
             \<longrightarrow> (\<forall>b\<in>set bs. id' b \<noteq> i \<and> user_id b = B))
       \<and> delete_alert io (run lib s0 ops) B i = (Inl (AlertNotFoundError i), run lib s0 ops)"
proof -
  let ?s = "run lib s0 ops"
  from assms(1,2) have ok: "store_ok ?s" by (rule store_ok_run)
  from ok obtain ys where ys: "get_user_alerts ?s B = PList ys"
    and al: "list_all (is_alert_of B) ys"
    unfolding store_ok_iff by blast
  from ok assms(3) have "set (ids_of (get_user_alerts ?s A)) \<inter> set (ids_of (get_user_alerts ?s B)) = {}"
    unfolding store_ok_iff by blast
  moreover have "Some (PStr i) \<in> set (ids_of (get_user_alerts ?s A))"
    using assms(4,5,6) by (force simp: ids_of_def)
  ultimately have notin: "Some (PStr i) \<notin> set (map entry_id ys)"
    using ys by (auto simp: ids_of_def)
  have 1: "\<forall>zs. get_user_alerts ?s B = PList zs \<longrightarrow> a \<notin> set zs"
    using notin ys assms(6) by force
  have 2: "\<forall>bs. list_alerts lib ?s B = Inr bs \<longrightarrow> (\<forall>b\<in>set bs. id' b \<noteq> i \<and> user_id b = B)"
  proof (intro allI impI ballI)
    fix bs b
    assume l: "list_alerts lib ?s B = Inr bs" and b: "b \<in> set bs"
    from l ys have "map_exn (to_alert lib) ys = Inr bs"
      by (simp add: list_alerts_def)
    from map_exn_Inr_set [OF this b] obtain y where y: "y \<in> set ys" "to_alert lib y = Inr b"
      by blast
    from al y(1) have "is_alert_of B y" by (simp add: list_all_iff)
    from to_alert_ids [OF this y(2)] have u: "user_id b = B"
      and e: "entry_id y = Some (PStr (id' b))"
      by simp_all
    note u
    moreover from e y(1) notin have "id' b \<noteq> i" by force
    ultimately show "id' b \<noteq> i \<and> user_id b = B" by simp
  qed
  from al have ids: "list_all (\<lambda>a. entry_id a \<noteq> None) ys"
    by (auto simp: list_all_iff dest: is_alert_of_entry_id)
  have 3: "delete_alert io ?s B i = (Inl (AlertNotFoundError i), ?s)"
    using notin by (simp add: delete_alert_list [OF ys ids] del: set_map)
  from 1 2 3 show ?thesis by blast
qed

lemma store_ok_empty: "store_ok empty_store"
  by (simp add: store_ok_def empty_store_def)

lemma run_alice_bob:
  "alerts (run example_pydantic empty_store alice_bob_ops) = [(''alice'', PList [alice_dict]), (''bob'', PList [bob_dict])]"
  by (simp add: alice_bob_ops_def empty_store_def create_alert_def get_user_alerts_def
      msft_payload_def Let_def save_alerts_def alice_dict_def bob_dict_def split: sum.split)

lemma fresh_alice_bob: "fresh_ids example_pydantic empty_store alice_bob_ops"
  by (simp add: alice_bob_ops_def empty_store_def create_alert_def get_user_alerts_def
      msft_payload_def Let_def save_alerts_def id_in_use_def ids_of_def entry_id_def
      new_alert_dict_def split: sum.split)

text \<open>
  Alice and Bob create one alert each on an empty store; Bob's delete of Alice's
  id is refused and changes nothing.
\<close>

theorem ownership_isolation_witness:
  "get_user_alerts (run example_pydantic empty_store alice_bob_ops) ''alice'' = PList [alice_dict]
   \<and> get_user_alerts (run example_pydantic empty_store alice_bob_ops) ''bob'' = PList [bob_dict]
   \<and> alice_dict \<noteq> bob_dict
   \<and> delete_alert IoOk (run example_pydantic empty_store alice_bob_ops) ''bob'' ''id1''
       = (Inl (AlertNotFoundError ''id1''), run example_pydantic empty_store alice_bob_ops)"
proof -
  have g: "get_user_alerts (run example_pydantic empty_store alice_bob_ops) ''alice'' = PList [alice_dict]"
    "get_user_alerts (run example_pydantic empty_store alice_bob_ops) ''bob'' = PList [bob_dict]"
    by (simp_all add: get_user_alerts_def run_alice_bob)
  have ne: "''alice'' \<noteq> ''bob''" by simp
  have m: "alice_dict \<in> set [alice_dict]" by simp
  have e: "entry_id alice_dict = Some (PStr ''id1'')"
    by (simp add: alice_dict_def)
  from ownership_isolation [OF store_ok_empty fresh_alice_bob ne g(1) m e, of IoOk] g
  show ?thesis
    by simp
qed


section \<open>Durability\<close>

lemma init_fields:
  assumes "AlertService_init f m = Inr s"
  shows "data_file s = f \<and> max_per_user s = m"
  using assms
  by (auto simp: AlertService_init_def load_alerts_def split: durable.splits pyval.splits sum.splits)

lemma init_sized:
  assumes "AlertService_init f m = Inr s"
  shows "list_all (\<lambda>kv. \<not> isl (py_len (snd kv))) (alerts s)"
proof (cases "\<exists>d. f = Document (PDict d)")
  case True
  then obtain d where f: "f = Document (PDict d)" ..
  with assms obtain lens where l: "map_exn py_len (map snd d) = Inr lens" and s: "alerts s = d"
    by (auto simp: AlertService_init_def load_alerts_def split: sum.splits)
  from l have "list_all (\<lambda>x. \<not> isl (py_len x)) (map snd d)"
    using map_exn_Inr_iff [of py_len "map snd d"] by blast
  with s show ?thesis by (simp add: list_all_iff)
next
  case False
  with assms have "alerts s = []"
    by (auto simp: AlertService_init_def load_alerts_def split: durable.splits pyval.splits)
  then show ?thesis by simp
qed

lemma list_all_update:
  "list_all P al \<Longrightarrow> P (k, v) \<Longrightarrow> list_all P (AList.update k v al)"
  by (induction al) auto

lemma init_after_save:
  assumes "list_all (\<lambda>kv. \<not> isl (py_len (snd kv))) (alerts s)"
  shows "AlertService_init (Document (PDict (alerts s))) (max_per_user s)
       = Inr (s\<lparr>data_file := Document (PDict (alerts s))\<rparr>)"
  using load_document_dict [OF assms, of "max_per_user s" "[]"]
  by (cases s) (simp add: AlertService_init_def)

lemma create_alert_success:
  assumes "fst (create_alert lib u now io s uid d) = Inr a"
  shows "\<exists>zs. snd (create_alert lib u now io s uid d)
           = (s\<lparr>alerts := AList.update uid (PList zs) (alerts s)\<rparr>)
               \<lparr>data_file := Document (PDict (AList.update uid (PList zs) (alerts s)))\<rparr>"
proof (cases "get_user_alerts s uid")
  case (PList xs)
  show ?thesis
  proof (cases "max_per_user s \<le> int (length xs)")
    case True
    with PList assms show ?thesis by (simp add: create_alert_limit)
  next
    case False
    then have lt: "int (length xs) < max_per_user s" by simp
    show ?thesis
    proof (cases "map_of d ''alert_type''")
      case None
      with PList lt assms show ?thesis by (simp add: create_alert_def)
    next
      case (Some ty)
      from assms have "io = IoOk"
        by (cases "io = IoOk")
          (simp_all add: create_alert_below_limit [OF PList lt Some] save_alerts_fails)
      then have "snd (create_alert lib u now io s uid d)
           = (s\<lparr>alerts := AList.update uid (PList (xs @ [new_alert_dict u now uid ty d])) (alerts s)\<rparr>)
               \<lparr>data_file := Document (PDict (AList.update uid
                    (PList (xs @ [new_alert_dict u now uid ty d])) (alerts s)))\<rparr>"
        by (simp add: create_alert_below_limit [OF PList lt Some] save_alerts_ok)
      then show ?thesis by blast
    qed
  qed
next
  case PNone
  with assms show ?thesis by (simp add: create_alert_def)
next
  case (PBool b)
  with assms show ?thesis by (simp add: create_alert_def)
next
  case (PInt i)
  with assms show ?thesis by (simp add: create_alert_def)
next
  case (PFloat r)
  with assms show ?thesis by (simp add: create_alert_def)
next
  case (PStr str)
  then have "map_of (alerts s) uid = Some (PStr str)"
    by (auto simp: get_user_alerts_def split: option.splits)
  with PStr assms show ?thesis
    by (simp add: create_alert_def Let_def split: if_splits option.splits)
next
  case (PDict dd)
  then have "map_of (alerts s) uid = Some (PDict dd)"
    by (auto simp: get_user_alerts_def split: option.splits)
  with PDict assms show ?thesis
    by (simp add: create_alert_def Let_def split: if_splits option.splits)
qed

lemma delete_alert_success:
  assumes "fst (delete_alert io s uid aid) = Inr v"
  shows "\<exists>zs. snd (delete_alert io s uid aid)
           = (s\<lparr>alerts := AList.update uid (PList zs) (alerts s)\<rparr>)
               \<lparr>data_file := Document (PDict (AList.update uid (PList zs) (alerts s)))\<rparr>"
proof -
  from assms obtain filtered where
    d: "delete_alert io s uid aid
          = save_alerts io (s\<lparr>alerts := AList.update uid (PList filtered) (alerts s)\<rparr>)"
    by (auto simp: delete_alert_def Let_def split: sum.splits if_splits)
  with assms have "io = IoOk"
    by (cases "io = IoOk") (simp_all add: save_alerts_fails)
  with d show ?thesis
    by (auto simp: save_alerts_ok)
qed

lemma step_success:
  assumes "step lib s x = (Inr v, s')"
  shows "\<exists>uid zs. s' = (s\<lparr>alerts := AList.update uid (PList zs) (alerts s)\<rparr>)
               \<lparr>data_file := Document (PDict (AList.update uid (PList zs) (alerts s)))\<rparr>"
proof (cases x)
  case (Create uid d u now io)
  with assms obtain a where "fst (create_alert lib u now io s uid d) = Inr a"
    and "s' = snd (create_alert lib u now io s uid d)"
    by (auto split: prod.splits sum.splits)
  with create_alert_success [of lib u now io s uid d a] show ?thesis by metis
next
  case (Delete uid aid io)
  with assms have "fst (delete_alert io s uid aid) = Inr v"
    and "s' = snd (delete_alert io s uid aid)"
    by simp_all
  with delete_alert_success [of io s uid aid v] show ?thesis by metis
qed

lemma step_round_trip:
  assumes "list_all (\<lambda>kv. \<not> isl (py_len (snd kv))) (alerts s)" and "step lib s x = (Inr v, s')"
  shows "list_all (\<lambda>kv. \<not> isl (py_len (snd kv))) (alerts s')
       \<and> AlertService_init (data_file s') (max_per_user s') = Inr s'"
proof -
  from step_success [OF assms(2)] obtain uid zs where
    s': "s' = (s\<lparr>alerts := AList.update uid (PList zs) (alerts s)\<rparr>)
               \<lparr>data_file := Document (PDict (AList.update uid (PList zs) (alerts s)))\<rparr>"
    by blast
  let ?s2 = "s\<lparr>alerts := AList.update uid (PList zs) (alerts s)\<rparr>"
  have sized: "list_all (\<lambda>kv. \<not> isl (py_len (snd kv))) (alerts ?s2)"
    using assms(1) by (simp add: list_all_update)
  from init_after_save [OF sized] sized s' show ?thesis
    by simp
qed

lemma run_ok_round_trip:
  assumes "list_all (\<lambda>kv. \<not> isl (py_len (snd kv))) (alerts s0)"
    and "AlertService_init (data_file s0) (max_per_user s0) = Inr s0"
    and "run_ok lib s0 ops = Some s"
  shows "AlertService_init (data_file s) (max_per_user s) = Inr s"
  using assms
proof (induction ops arbitrary: s0)
  case Nil
  then show ?case by simp
next
  case (Cons x ops)
  from Cons.prems(3) obtain v s1 where st: "step lib s0 x = (Inr v, s1)" and r: "run_ok lib s1 ops = Some s"
    by (auto split: prod.splits sum.splits)
  from step_round_trip [OF Cons.prems(1) st] r show ?case
    using Cons.IH by blast
qed

text \<open>
  C8.  Construct the service over any file, and let any sequence of creates and
  deletes return.  Constructing a fresh service over the durable file as the last
  call left it gives the very service state: the same owners in the same order,
  and for each owner the same alerts, field by field, in the same order.
\<close>

theorem durability_round_trip:
  assumes "AlertService_init f m = Inr s0" and "run_ok lib s0 ops = Some s"
  shows "AlertService_init (data_file s) (max_per_user s) = Inr s"
proof -
  from init_fields [OF assms(1)] assms(1)
  have "AlertService_init (data_file s0) (max_per_user s0) = Inr s0" by simp
  from run_ok_round_trip [OF init_sized [OF assms(1)] this assms(2)] show ?thesis .
qed

lemma to_alert_alice_bob: "\<not> isl (to_alert example_pydantic alice_dict)" "\<not> isl (to_alert example_pydantic bob_dict)"
  by (simp_all add: validate_defs alice_dict_def bob_dict_def new_alert_dict_def msft_payload_def
      dict_get_def)

lemma run_ok_alice_bob: "run_ok example_pydantic empty_store alice_bob_ops = Some alice_bob_store"
proof -
  obtain a b where ab: "to_alert example_pydantic alice_dict = Inr a" "to_alert example_pydantic bob_dict = Inr b"
    using to_alert_alice_bob by (metis sum.collapse(2))
  have t: "map_of msft_payload ''alert_type'' = Some (PStr ''price_threshold'')"
    by (simp add: msft_payload_def)
  show ?thesis
    using ab
    by (simp add: alice_bob_ops_def empty_store_def alice_bob_store_def create_alert_def
        get_user_alerts_def t Let_def save_alerts_def
        alice_dict_def [symmetric] bob_dict_def [symmetric])
qed

text \<open>
  From an absent file, Alice and Bob create one alert each; the file then holds
  both collections and a fresh service over it equals the running one.
\<close>

theorem durability_round_trip_witness:
  "AlertService_init Missing 10 = Inr empty_store
   \<and> run_ok example_pydantic empty_store alice_bob_ops = Some alice_bob_store
   \<and> AlertService_init
        (Document (PDict [(''alice'', PList [alice_dict]), (''bob'', PList [bob_dict])])) 10
       = Inr alice_bob_store"
proof -
  have i: "AlertService_init Missing 10 = Inr empty_store"
    by (simp add: AlertService_init_def load_alerts_def empty_store_def)
  from durability_round_trip [OF i run_ok_alice_bob] i run_ok_alice_bob
  show ?thesis
    by (simp add: alice_bob_store_def)
qed

end
